theory Spec2Isabelle
  imports Main
begin

section \<open>JavaScript values used by the transport manager\<close>

text \<open>
  Header values and the configured token are JavaScript strings. A header value reaches the
  server decoded one byte per character, so a string is modelled as a list of 8-bit
  characters. A header that may be missing has type \<open>string option\<close>: \<open>None\<close> is
  \<open>undefined\<close>, and \<open>Some []\<close> is a header sent with an empty value.
\<close>

fun truthy :: "string option \<Rightarrow> bool" where
  "truthy None = False"
| "truthy (Some s) = (s \<noteq> [])"

datatype json =
    JNull
  | JString string
  | JNumber int
  | JObject "(string \<times> json) list"

datatype payload = Json json | Text string | NoBody

record response =
  status :: nat
  session_id_header :: "string option"
  payload :: payload

record request =
  http_method :: string
  path :: string
  authorization :: "string option"
  mcp_session_id :: "string option"
  last_event_id :: "string option"
  body :: json

text \<open>\<open>res.status(n).json(v)\<close> and \<open>res.status(n).send(s)\<close>; neither sets a session header.\<close>

definition res_json :: "nat \<Rightarrow> json \<Rightarrow> response" where
  "res_json n v = \<lparr>status = n, session_id_header = None, payload = Json v\<rparr>"

definition res_send :: "nat \<Rightarrow> string \<Rightarrow> response" where
  "res_send n s = \<lparr>status = n, session_id_header = None, payload = Text s\<rparr>"

definition error_envelope :: "int \<Rightarrow> string \<Rightarrow> json" where
  "error_envelope code message =
     JObject [(''jsonrpc'', JString ''2.0''),
              (''error'', JObject [(''code'', JNumber code), (''message'', JString message)]),
              (''id'', JNull)]"

text \<open>
  The shape \<open>{jsonrpc, error: {code, message}, id}\<close> of a JSON-RPC error envelope,
  as a test on a response body.
\<close>

fun is_error_object :: "json \<Rightarrow> bool" where
  "is_error_object (JObject [(k1, JNumber c), (k2, JString m)]) =
     (k1 = ''code'' \<and> k2 = ''message'')"
| "is_error_object _ = False"

fun is_error_envelope :: "payload \<Rightarrow> bool" where
  "is_error_envelope (Json (JObject [(k1, JString v), (k2, e), (k3, i)])) =
     (k1 = ''jsonrpc'' \<and> v = ''2.0'' \<and> k2 = ''error'' \<and> is_error_object e \<and> k3 = ''id'')"
| "is_error_envelope _ = False"

section \<open>The access gate (middleware/auth)\<close>

record AuthConfig =
  token :: string

datatype verdict = Next | Respond response

text \<open>
  The character class \<open>\s\<close> of a JavaScript regular expression, on one-byte characters:
  tab, line feed, vertical tab, form feed, carriage return, space, no-break space.
\<close>

definition is_space :: "char \<Rightarrow> bool" where
  "is_space c = (c \<in> {CHR 0x09, CHR 0x0A, CHR 0x0B, CHR 0x0C, CHR 0x0D, CHR 0x20, CHR 0xA0})"

text \<open>
  \<open>/^Bearer\s+/i\<close>: the six letters in either case, then at least one space character.
  Without the unicode flag only the ASCII letters match each other case-insensitively.
\<close>

definition letter_ci :: "char \<Rightarrow> char \<times> char \<Rightarrow> bool" where
  "letter_ci c ul = (c = fst ul \<or> c = snd ul)"

definition bearer_letters :: "(char \<times> char) list" where
  "bearer_letters =
     [(CHR ''B'', CHR ''b''), (CHR ''E'', CHR ''e''), (CHR ''A'', CHR ''a''),
      (CHR ''R'', CHR ''r''), (CHR ''E'', CHR ''e''), (CHR ''R'', CHR ''r'')]"

definition has_bearer_prefix :: "string \<Rightarrow> bool" where
  "has_bearer_prefix h =
     (list_all2 letter_ci (take 6 h) bearer_letters \<and>
      (case drop 6 h of [] \<Rightarrow> False | c # _ \<Rightarrow> is_space c))"

text \<open>\<open>authHeader.replace(/^Bearer\s+/i, "")\<close>: the greedy \<open>\s+\<close> takes every leading space.\<close>

definition strip_bearer :: "string \<Rightarrow> string" where
  "strip_bearer h = (if has_bearer_prefix h then dropWhile is_space (drop 6 h) else h)"

definition starts_with :: "string \<Rightarrow> string \<Rightarrow> bool" where
  "starts_with s p = (take (length p) s = p)"

definition createAuthMiddleware :: "AuthConfig \<Rightarrow> request \<Rightarrow> verdict" where
  "createAuthMiddleware config req =
     (if path req = ''/health'' \<or> path req = ''/ready'' then Next
      else if http_method req = ''OPTIONS'' then Next
      else if starts_with (path req) ''/.well-known/'' \<or> path req = ''/register'' then Next
      else if \<not> truthy (authorization req) then
        Respond (res_json 401 (error_envelope (- 32000) ''Missing Authorization header''))
      else if strip_bearer (the (authorization req)) \<noteq> token config then
        Respond (res_json 401 (error_envelope (- 32000) ''Invalid authorization token''))
      else Next)"

section \<open>The transport manager (transports/streamable-http)\<close>

record StreamableHttpOptions =
  port :: nat
  mcpEndpoint :: string
  enableResumability :: bool
  enableStatelessMode :: bool
  enableCors :: bool
  allowedOrigins :: string
  enableAuth :: bool
  apiToken :: "string option"

text \<open>
  A transport object of the protocol library, as the manager constructs it: its identity,
  the options passed to the constructor, and whether the manager's two callbacks are
  attached (\<open>onsessioninitialized\<close> in the options, \<open>transport.onclose\<close> assigned).
\<close>

datatype id_generator = RandomUUID

datatype event_store = InMemoryEventStore

record transport =
  ident :: nat
  sessionIdGenerator :: "id_generator option"
  enableJsonResponse :: bool
  eventStore :: "event_store option"
  onsessioninitialized :: bool
  onclose :: bool

text \<open>
  \<open>Map<string, transport>\<close> keeps its entries in insertion order; \<open>set\<close> on a key that is
  there replaces the value in place, \<open>size\<close> is the number of entries.
\<close>

type_synonym registry = "(string \<times> transport) list"

fun map_has :: "registry \<Rightarrow> string \<Rightarrow> bool" where
  "map_has [] k = False"
| "map_has ((k', v) # m) k = (k' = k \<or> map_has m k)"

fun map_get :: "registry \<Rightarrow> string \<Rightarrow> transport option" where
  "map_get [] k = None"
| "map_get ((k', v) # m) k = (if k' = k then Some v else map_get m k)"

fun map_set :: "registry \<Rightarrow> string \<Rightarrow> transport \<Rightarrow> registry" where
  "map_set [] k v = [(k, v)]"
| "map_set ((k', v') # m) k v = (if k' = k then (k, v) # m else (k', v') # map_set m k v)"

fun map_delete :: "registry \<Rightarrow> string \<Rightarrow> registry" where
  "map_delete [] k = []"
| "map_delete ((k', v) # m) k = (if k' = k then map_delete m k else (k', v) # map_delete m k)"

definition map_size :: "registry \<Rightarrow> nat" where
  "map_size m = length m"

text \<open>
  The calls the manager makes on the library: \<open>this.server.connect(transport)\<close>,
  \<open>transport.handleRequest(req, res, ...)\<close> and \<open>transport.close()\<close>.
\<close>

datatype lib_call = Connect transport | HandleRequest transport request | Close transport

text \<open>
  The fields of the class that change, and two that are not fields: \<open>created\<close> counts the
  transport objects constructed so far and gives each new object its identity, and
  \<open>calls\<close> records, in order, the calls made on the library so far, so that what a handler
  does with a transport can be stated.
\<close>

record manager =
  options :: StreamableHttpOptions
  transports :: registry
  created :: nat
  httpServer :: bool
  calls :: "lib_call list"

text \<open>
  The constructor: an empty registry, no transport object made yet, not listening.
  The options are taken after the defaults have been merged in.
\<close>

definition new_manager :: "StreamableHttpOptions \<Rightarrow> manager" where
  "new_manager opts =
     \<lparr>options = opts, transports = [], created = 0, httpServer = False, calls = []\<rparr>"

definition listen :: "manager \<Rightarrow> manager" where
  "listen m = m\<lparr>httpServer := True\<rparr>"

subsection \<open>The protocol library, as the environment of the manager\<close>

text \<open>
  The library is not part of this repository, so what it does is a parameter. During a call it
  may invoke the manager's callbacks: \<open>SessionInitialized sid\<close> is a call of
  \<open>onsessioninitialized(sid)\<close>; \<open>Closed s\<close> is a call of \<open>transport.onclose()\<close> at a
  moment when \<open>transport.sessionId\<close> has the value \<open>s\<close>.
\<close>

datatype sdk_event = SessionInitialized string | Closed "string option"

record sdk_outcome =
  events :: "sdk_event list"
  written :: "response option"
  threw :: bool

datatype settle = Resolved | Rejected | Pending

record close_outcome =
  onclose_seen :: "string option option"
  settled :: settle

record sdk =
  isInitializeRequest :: "json \<Rightarrow> bool"
  connect_ok :: "transport \<Rightarrow> bool"
  handleRequest :: "transport \<Rightarrow> request \<Rightarrow> sdk_outcome"
  close_transport :: "transport \<Rightarrow> close_outcome"
  listener_drains :: bool

text \<open>
  The two callbacks of \<open>createStatefulTransport\<close>, run when the library invokes them.
  A handler is modelled as running from its first statement to its last without another
  request coming in between; interleavings of concurrent requests are outside the model.
\<close>

definition on_session_initialized :: "transport \<Rightarrow> manager \<Rightarrow> string \<Rightarrow> manager" where
  "on_session_initialized t m sessionId = m\<lparr>transports := map_set (transports m) sessionId t\<rparr>"

definition on_close :: "manager \<Rightarrow> string option \<Rightarrow> manager" where
  "on_close m sessionId =
     (if truthy sessionId then m\<lparr>transports := map_delete (transports m) (the sessionId)\<rparr>
      else m)"

fun fire :: "transport \<Rightarrow> manager \<Rightarrow> sdk_event \<Rightarrow> manager" where
  "fire t m (SessionInitialized sid) =
     (if onsessioninitialized t then on_session_initialized t m sid else m)"
| "fire t m (Closed s) = (if onclose t then on_close m s else m)"

subsection \<open>Transport factory\<close>

definition createStatefulTransport :: "sdk \<Rightarrow> manager \<Rightarrow> manager \<times> transport option" where
  "createStatefulTransport lib m =
     (let store = (if enableResumability (options m) then Some InMemoryEventStore else None);
          t = \<lparr>ident = created m, sessionIdGenerator = Some RandomUUID,
               enableJsonResponse = True, eventStore = store,
               onsessioninitialized = True, onclose = True\<rparr>;
          m' = m\<lparr>created := created m + 1, calls := calls m @ [Connect t]\<rparr>
      in if connect_ok lib t then (m', Some t) else (m', None))"

definition createStatelessTransport :: "sdk \<Rightarrow> manager \<Rightarrow> manager \<times> transport option" where
  "createStatelessTransport lib m =
     (let t = \<lparr>ident = created m, sessionIdGenerator = None,
               enableJsonResponse = True, eventStore = None,
               onsessioninitialized = False, onclose = False\<rparr>;
          m' = m\<lparr>created := created m + 1, calls := calls m @ [Connect t]\<rparr>
      in if connect_ok lib t then (m', Some t) else (m', None))"

subsection \<open>Request handlers\<close>

text \<open>
  \<open>await transport.handleRequest(...)\<close> inside the handler's \<open>try\<close>: the callbacks the
  library invoked are applied to the manager; when the call threw and nothing had been sent,
  the handler's own error reply goes out, otherwise what the library wrote.
\<close>

definition forward ::
  "sdk \<Rightarrow> manager \<Rightarrow> transport \<Rightarrow> request \<Rightarrow> response \<Rightarrow> manager \<times> response option" where
  "forward lib m t req on_error =
     (let out = handleRequest lib t req;
          m' = foldl (fire t) (m\<lparr>calls := calls m @ [HandleRequest t req]\<rparr>) (events out)
      in (m', if threw out \<and> written out = None then Some on_error else written out))"

datatype dispatch = Stateless | Reuse "transport option" | Initialize | BadRequest

text \<open>
  The chain of conditions of \<open>handlePost\<close>, in the order of the source. The result of
  \<open>this.transports.get(sessionId)!\<close> is kept as an option: a call on \<open>undefined\<close> would
  throw inside the \<open>try\<close> and end in the handler's error reply.
\<close>

definition selectPost :: "sdk \<Rightarrow> manager \<Rightarrow> request \<Rightarrow> dispatch" where
  "selectPost lib m req =
     (let sessionId = mcp_session_id req in
      if enableStatelessMode (options m) then Stateless
      else if truthy sessionId \<and> map_has (transports m) (the sessionId) then
        Reuse (map_get (transports m) (the sessionId))
      else if \<not> truthy sessionId \<and> isInitializeRequest lib (body req) then Initialize
      else BadRequest)"

definition post_bad_request :: response where
  "post_bad_request =
     res_json 400 (error_envelope (- 32000) ''Bad Request: Missing or invalid session ID'')"

definition post_internal_error :: response where
  "post_internal_error = res_json 500 (error_envelope (- 32603) ''Internal server error'')"

definition with_new ::
  "sdk \<Rightarrow> manager \<times> transport option \<Rightarrow> request \<Rightarrow> manager \<times> response option" where
  "with_new lib made req =
     (case made of
        (m', None) \<Rightarrow> (m', Some post_internal_error)
      | (m', Some t) \<Rightarrow> forward lib m' t req post_internal_error)"

definition handlePost :: "sdk \<Rightarrow> manager \<Rightarrow> request \<Rightarrow> manager \<times> response option" where
  "handlePost lib m req =
     (case selectPost lib m req of
        Stateless \<Rightarrow> with_new lib (createStatelessTransport lib m) req
      | Reuse None \<Rightarrow> (m, Some post_internal_error)
      | Reuse (Some t) \<Rightarrow> forward lib m t req post_internal_error
      | Initialize \<Rightarrow> with_new lib (createStatefulTransport lib m) req
      | BadRequest \<Rightarrow> (m, Some post_bad_request))"

definition session_known :: "manager \<Rightarrow> request \<Rightarrow> bool" where
  "session_known m req =
     (truthy (mcp_session_id req) \<and> map_has (transports m) (the (mcp_session_id req)))"

definition handleGet :: "sdk \<Rightarrow> manager \<Rightarrow> request \<Rightarrow> manager \<times> response option" where
  "handleGet lib m req =
     (if \<not> session_known m req then (m, Some (res_send 400 ''Invalid or missing session ID''))
      else case map_get (transports m) (the (mcp_session_id req)) of
             None \<Rightarrow> (m, Some (res_send 500 ''Internal server error''))
           | Some t \<Rightarrow> forward lib m t req (res_send 500 ''Internal server error''))"

text \<open>
  The \<open>close\<close> listener that \<open>handleGet\<close> puts on the response: it writes one log line.
\<close>

definition get_connection_closed :: "manager \<Rightarrow> string \<Rightarrow> manager \<times> string" where
  "get_connection_closed m sessionId =
     (m, ''[GET] SSE connection closed for session: '' @ sessionId)"

definition handleDelete :: "sdk \<Rightarrow> manager \<Rightarrow> request \<Rightarrow> manager \<times> response option" where
  "handleDelete lib m req =
     (if \<not> session_known m req then (m, Some (res_send 400 ''Invalid or missing session ID''))
      else case map_get (transports m) (the (mcp_session_id req)) of
             None \<Rightarrow> (m, Some (res_send 500 ''Error processing session termination''))
           | Some t \<Rightarrow> forward lib m t req (res_send 500 ''Error processing session termination''))"

subsection \<open>Operational endpoints and the route table\<close>

text \<open>The handler of \<open>GET /health\<close>; \<open>now\<close> is \<open>new Date().toISOString()\<close>.\<close>

definition health :: "manager \<Rightarrow> string \<Rightarrow> response" where
  "health m now =
     res_json 200
       (JObject [(''status'', JString ''ok''),
                 (''mode'', JString (if enableStatelessMode (options m) then ''stateless''
                                     else ''stateful'')),
                 (''activeSessions'', JNumber (int (map_size (transports m)))),
                 (''timestamp'', JString now)])"

definition ready :: response where
  "ready = res_json 200 (JObject [(''status'', JString ''ready'')])"

text \<open>What \<open>setupRoutes\<close> registers, as pairs of method and path pattern, in order.\<close>

definition setupRoutes :: "StreamableHttpOptions \<Rightarrow> (string \<times> string) list" where
  "setupRoutes opts =
     (let endpoint = mcpEndpoint opts in
      [(''POST'', endpoint), (''GET'', endpoint), (''DELETE'', endpoint)] @
      (if endpoint \<noteq> ''/'' then [(''POST'', ''/''), (''GET'', ''/''), (''DELETE'', ''/'')] else []) @
      [(''GET'', ''/health''), (''GET'', ''/ready'')])"

text \<open>\<open>setupMiddleware\<close> installs the access gate only when auth is on and a token is set.\<close>

definition access_gate :: "StreamableHttpOptions \<Rightarrow> request \<Rightarrow> verdict" where
  "access_gate opts req =
     (if enableAuth opts \<and> truthy (apiToken opts)
      then createAuthMiddleware \<lparr>token = the (apiToken opts)\<rparr> req
      else Next)"

subsection \<open>Runs of the manager\<close>

datatype call = Post request | Get request | Delete request | ConnectionClosed string

fun step :: "sdk \<Rightarrow> manager \<Rightarrow> call \<Rightarrow> manager \<times> response option" where
  "step lib m (Post req) = handlePost lib m req"
| "step lib m (Get req) = handleGet lib m req"
| "step lib m (Delete req) = handleDelete lib m req"
| "step lib m (ConnectionClosed sid) = (fst (get_connection_closed m sid), None)"

text \<open>A run: each call comes with the behaviour of the library during that call.\<close>

fun run :: "manager \<Rightarrow> (sdk \<times> call) list \<Rightarrow> manager" where
  "run m [] = m"
| "run m ((lib, c) # cs) = run (fst (step lib m c)) cs"

subsection \<open>Shutdown\<close>

datatype shutdown_step =
    ClosingTransport string transport
  | ErrorClosing string
  | RegistryCleared
  | ListenerCloseRequested
  | ListenerClosed
  | ProcessExit int

text \<open>
  The loop \<open>for (const [sessionId, transport] of this.transports)\<close> with
  \<open>await transport.close()\<close> in a \<open>try\<close>. The iteration is over the live map: an entry
  that a callback deleted before its turn is not visited. The result is the manager, the steps
  taken, and whether the loop came to its end (it does not when a close never settles).
\<close>

function closeAll :: "sdk \<Rightarrow> registry \<Rightarrow> manager \<Rightarrow> manager \<times> shutdown_step list \<times> bool" where
  "closeAll lib [] m = (m, [], True)"
| "closeAll lib ((sessionId, t) # pending) m =
     (let out = close_transport lib t;
          m1 = m\<lparr>calls := calls m @ [Close t]\<rparr>;
          m' = (case onclose_seen out of None \<Rightarrow> m1 | Some s \<Rightarrow> fire t m1 (Closed s));
          pending' = filter (\<lambda>e. map_has (transports m') (fst e)) pending
      in case settled out of
           Pending \<Rightarrow> (m', [ClosingTransport sessionId t], False)
         | Rejected \<Rightarrow>
             (case closeAll lib pending' m' of
                (m'', steps, done) \<Rightarrow>
                  (m'', ClosingTransport sessionId t # ErrorClosing sessionId # steps, done))
         | Resolved \<Rightarrow>
             (case closeAll lib pending' m' of
                (m'', steps, done) \<Rightarrow> (m'', ClosingTransport sessionId t # steps, done)))"
  by pat_completeness auto
termination
  by (relation "measure (\<lambda>(lib, pending, m). length pending)") (auto simp: less_Suc_eq_le)

record shutdown_result =
  final :: manager
  steps :: "shutdown_step list"
  exited :: bool

definition shutdown :: "sdk \<Rightarrow> manager \<Rightarrow> shutdown_result" where
  "shutdown lib m =
     (case closeAll lib (transports m) m of
        (m', closing, False) \<Rightarrow> \<lparr>final = m', steps = closing, exited = False\<rparr>
      | (m', closing, True) \<Rightarrow>
          (let m'' = m'\<lparr>transports := []\<rparr> in
           if httpServer m'' then
             (if listener_drains lib
              then \<lparr>final = m'', 
                    steps = closing @ [RegistryCleared, ListenerCloseRequested, ListenerClosed,
                                       ProcessExit 0],
                    exited = True\<rparr>
              else \<lparr>final = m'',
                    steps = closing @ [RegistryCleared, ListenerCloseRequested],
                    exited = False\<rparr>)
           else \<lparr>final = m'', steps = closing @ [RegistryCleared, ProcessExit 0],
                 exited = True\<rparr>))"

section \<open>The protocol library as the specification describes it\<close>

text \<open>
  Modelled from the spec: what the specification leaves open about the transport of the
  protocol library (the class \<open>StreamableHTTPServerTransport\<close> and \<open>server.connect\<close>, whose
  source is not in the repository): which bodies are initialization requests, what the
  engine replies, whether handling an ordinary request fails, whether a request to close a
  transport fails (section 4.5), and whether the listener's connections end.
\<close>

record library =
  recognises :: "json \<Rightarrow> bool"
  replies :: "transport \<Rightarrow> request \<Rightarrow> response"
  faults :: "transport \<Rightarrow> request \<Rightarrow> bool"
  close_fails :: "transport \<Rightarrow> bool"
  drains :: bool

text \<open>
  Modelled from the spec: the id that \<open>randomUUID()\<close>, which is not code of the repository,
  yields for the transport object number \<open>n\<close>. Section 4.3 asks for a fresh unique session
  id and section 4.2 has collisions excluded: different objects get different ids, and no id
  is empty.
\<close>

definition generated_id :: "nat \<Rightarrow> string" where
  "generated_id n = CHR ''s'' # replicate n (CHR ''i'')"

text \<open>
  Modelled from the spec: the field \<open>transport.sessionId\<close> of the library's transport once
  it has been initialized: the generated id for a transport with an id generator, none for
  a stateless transport (section 4.3, case 1: no session id is issued).
\<close>

definition session_of :: "transport \<Rightarrow> string option" where
  "session_of t =
     (case sessionIdGenerator t of
        None \<Rightarrow> None
      | Some RandomUUID \<Rightarrow> Some (generated_id (ident t)))"

text \<open>
  Modelled from the spec: the behaviour of the library's transport, missing from the
  repository. Connecting a transport to the engine succeeds. A DELETE closes the transport,
  which runs its close hook (section 4.3). An initialization request that carries no session
  id starts the session: the transport takes its generated id, reports it through
  \<open>onsessioninitialized\<close>, and returns it in the session header of the reply (section 4.3,
  case 3). Any other request is answered by the engine, or fails before anything is written.
  Every reply of a transport carries its session id, if it has one. Closing a transport runs
  its close hook and then succeeds or fails (section 4.5).
\<close>

definition the_sdk :: "library \<Rightarrow> sdk" where
  "the_sdk L =
     \<lparr>isInitializeRequest = recognises L,
      connect_ok = (\<lambda>t. True),
      handleRequest = (\<lambda>t req.
        if http_method req = ''DELETE'' then
          \<lparr>events = [Closed (session_of t)],
           written = Some \<lparr>status = 200, session_id_header = session_of t, payload = NoBody\<rparr>,
           threw = False\<rparr>
        else if http_method req = ''POST'' \<and> recognises L (body req) \<and>
                \<not> truthy (mcp_session_id req) then
          \<lparr>events = (case session_of t of None \<Rightarrow> [] | Some sid \<Rightarrow> [SessionInitialized sid]),
           written = Some ((replies L t req)\<lparr>session_id_header := session_of t\<rparr>),
           threw = False\<rparr>
        else if faults L t req then \<lparr>events = [], written = None, threw = True\<rparr>
        else
          \<lparr>events = [],
           written = Some ((replies L t req)\<lparr>session_id_header := session_of t\<rparr>),
           threw = False\<rparr>),
      close_transport = (\<lambda>t.
        \<lparr>onclose_seen = Some (session_of t),
         settled = (if close_fails L t then Rejected else Resolved)\<rparr>),
      listener_drains = drains L\<rparr>"

text \<open>A run in which the library behaves as described, call by call.\<close>

definition with_library :: "(library \<times> call) list \<Rightarrow> (sdk \<times> call) list" where
  "with_library cs = map (\<lambda>x. (the_sdk (fst x), snd x)) cs"

section \<open>Vocabulary of the specification\<close>

text \<open>
  The request classes that the specification lists as never gated: preflight requests, the
  two probe paths, and the discovery paths.
\<close>

definition exempt :: "request \<Rightarrow> bool" where
  "exempt req =
     (http_method req = ''OPTIONS'' \<or> path req = ''/health'' \<or> path req = ''/ready'' \<or>
      starts_with (path req) ''/.well-known/'' \<or> path req = ''/register'')"

text \<open>The properties of a JSON object in a response body.\<close>

fun fields :: "payload \<Rightarrow> (string \<times> json) list" where
  "fields (Json (JObject fs)) = fs"
| "fields _ = []"

text \<open>The steps the shutdown loop is expected to take on a list of registry entries.\<close>

definition closing_steps :: "sdk \<Rightarrow> registry \<Rightarrow> shutdown_step list" where
  "closing_steps lib entries =
     concat (map (\<lambda>e. ClosingTransport (fst e) (snd e) #
                       (if settled (close_transport lib (snd e)) = Rejected
                        then [ErrorClosing (fst e)] else []))
                 entries)"

fun attempted :: "shutdown_step list \<Rightarrow> registry" where
  "attempted [] = []"
| "attempted (ClosingTransport sid t # xs) = (sid, t) # attempted xs"
| "attempted (_ # xs) = attempted xs"

text \<open>A JavaScript map never holds a key twice.\<close>

definition keys_distinct :: "manager \<Rightarrow> bool" where
  "keys_distinct m = distinct (map fst (transports m))"

text \<open>
  Every registered transport is registered under its own generated id, was constructed
  before now with an id generator, and carries the manager's close hook.
\<close>

definition registered_by_id :: "manager \<Rightarrow> bool" where
  "registered_by_id m =
     list_all (\<lambda>e. fst e = generated_id (ident (snd e)) \<and> ident (snd e) < created m \<and>
                    sessionIdGenerator (snd e) = Some RandomUUID \<and> onclose (snd e))
              (transports m)"

section \<open>Sample configurations\<close>

definition sample_options :: StreamableHttpOptions where
  "sample_options =
     \<lparr>port = 3000, mcpEndpoint = ''/mcp'', enableResumability = False,
      enableStatelessMode = False, enableCors = True, allowedOrigins = ''*'',
      enableAuth = True, apiToken = Some ''s3cret''\<rparr>"

definition stateless_options :: StreamableHttpOptions where
  "stateless_options = sample_options\<lparr>enableStatelessMode := True\<rparr>"

definition initialize_body :: json where
  "initialize_body =
     JObject [(''jsonrpc'', JString ''2.0''), (''method'', JString ''initialize''),
              (''params'',
               JObject [(''protocolVersion'', JString ''2024-11-05''),
                        (''capabilities'', JObject []),
                        (''clientInfo'',
                         JObject [(''name'', JString ''test''),
                                  (''version'', JString ''1.0'')])]),
              (''id'', JNumber 1)]"

definition list_body :: json where
  "list_body =
     JObject [(''jsonrpc'', JString ''2.0''), (''method'', JString ''tools/list''),
              (''id'', JNumber 2)]"

definition sample_request :: "string \<Rightarrow> string \<Rightarrow> string option \<Rightarrow> request" where
  "sample_request meth p auth =
     \<lparr>http_method = meth, path = p, authorization = auth, mcp_session_id = None,
      last_event_id = None, body = JNull\<rparr>"

definition mcp_request :: "string \<Rightarrow> string option \<Rightarrow> json \<Rightarrow> request" where
  "mcp_request meth sid b =
     \<lparr>http_method = meth, path = ''/mcp'', authorization = Some ''Bearer s3cret'',
      mcp_session_id = sid, last_event_id = None, body = b\<rparr>"

definition uuid_of :: "nat \<Rightarrow> string" where
  "uuid_of n = (if n = 0 then ''6f1c'' else if n = 1 then ''a2b7'' else ''ffff'')"

definition ok_reply :: "string option \<Rightarrow> response" where
  "ok_reply sid = \<lparr>status = 200, session_id_header = sid, payload = Json (JObject [])\<rparr>"

text \<open>
  A well-behaved library: an initialization handled by a transport with an id generator
  starts a session and reports it; a DELETE closes the transport; closing a transport runs
  its close hook under the transport's own session id.
\<close>

definition sample_sdk :: sdk where
  "sample_sdk =
     \<lparr>isInitializeRequest = (\<lambda>b. b = initialize_body),
      connect_ok = (\<lambda>t. True),
      handleRequest = (\<lambda>t req.
        if http_method req = ''POST'' \<and> body req = initialize_body \<and>
           sessionIdGenerator t \<noteq> None
        then \<lparr>events = [SessionInitialized (uuid_of (ident t))],
              written = Some (ok_reply (Some (uuid_of (ident t)))), threw = False\<rparr>
        else if http_method req = ''DELETE''
        then \<lparr>events = [Closed (mcp_session_id req)],
              written = Some (ok_reply None), threw = False\<rparr>
        else \<lparr>events = [], written = Some (ok_reply None), threw = False\<rparr>),
      close_transport = (\<lambda>t.
        \<lparr>onclose_seen = Some (Some (uuid_of (ident t))),
         settled = (if ident t = 0 then Rejected else Resolved)\<rparr>),
      listener_drains = True\<rparr>"

text \<open>The same library when a client keeps a connection open during shutdown.\<close>

definition busy_sdk :: sdk where
  "busy_sdk = sample_sdk\<lparr>listener_drains := False\<rparr>"

definition stateful_transport :: "nat \<Rightarrow> transport" where
  "stateful_transport n =
     \<lparr>ident = n, sessionIdGenerator = Some RandomUUID, enableJsonResponse = True,
      eventStore = None, onsessioninitialized = True, onclose = True\<rparr>"

text \<open>A listening stateful manager with two sessions.\<close>

definition two_sessions :: manager where
  "two_sessions =
     \<lparr>options = sample_options,
      transports = [(''6f1c'', stateful_transport 0), (''a2b7'', stateful_transport 1)],
      created = 2, httpServer = True, calls = []\<rparr>"

text \<open>A library that fails on every request, and one whose connect fails.\<close>

definition faulty_sdk :: sdk where
  "faulty_sdk =
     sample_sdk\<lparr>handleRequest := (\<lambda>t req. \<lparr>events = [], written = None, threw = True\<rparr>)\<rparr>"

definition unconnected_sdk :: sdk where
  "unconnected_sdk = sample_sdk\<lparr>connect_ok := (\<lambda>t. False)\<rparr>"

text \<open>
  The described library with an engine that answers 200; closing the first transport fails.
\<close>

definition sample_library :: library where
  "sample_library =
     \<lparr>recognises = (\<lambda>b. b = initialize_body), replies = (\<lambda>t req. ok_reply None),
      faults = (\<lambda>t req. False), close_fails = (\<lambda>t. ident t = 0), drains = True\<rparr>"

text \<open>The transport object number \<open>n\<close> of stateless mode.\<close>

definition stateless_transport :: "nat \<Rightarrow> transport" where
  "stateless_transport n =
     \<lparr>ident = n, sessionIdGenerator = None, enableJsonResponse = True,
      eventStore = None, onsessioninitialized = False, onclose = False\<rparr>"

section \<open>Properties\<close>

subsection \<open>The access gate\<close>

lemma gate_exempt: "exempt req \<Longrightarrow> createAuthMiddleware cfg req = Next"
  by (auto simp: exempt_def createAuthMiddleware_def)

lemma gate_installed:
  "enableAuth opts \<Longrightarrow> apiToken opts = Some tok \<Longrightarrow> tok \<noteq> [] \<Longrightarrow>
   access_gate opts req = createAuthMiddleware \<lparr>token = tok\<rparr> req"
  by (simp add: access_gate_def)

lemma gate_checked:
  "\<not> exempt req \<Longrightarrow>
   createAuthMiddleware cfg req =
     (if \<not> truthy (authorization req) then
        Respond (res_json 401 (error_envelope (- 32000) ''Missing Authorization header''))
      else if strip_bearer (the (authorization req)) \<noteq> token cfg then
        Respond (res_json 401 (error_envelope (- 32000) ''Invalid authorization token''))
      else Next)"
  by (simp add: exempt_def createAuthMiddleware_def)

text \<open>
  C3, as stated, fails on an Authorization header that is sent with an empty value: the header
  is present and its stripped value differs from the token, yet the denial is the one for a
  missing header, because \<open>!authHeader\<close> holds for the empty string.
\<close>

theorem empty_authorization_counterexample:
  "authorization (sample_request ''POST'' ''/mcp'' (Some [])) = Some [] \<and>
   \<not> exempt (sample_request ''POST'' ''/mcp'' (Some [])) \<and>
   strip_bearer (the (authorization (sample_request ''POST'' ''/mcp'' (Some [])))) \<noteq> ''s3cret'' \<and>
   access_gate sample_options (sample_request ''POST'' ''/mcp'' (Some [])) \<noteq>
     Respond (res_json 401 (error_envelope (- 32000) ''Invalid authorization token''))"
  by (simp add: sample_request_def exempt_def starts_with_def strip_bearer_def
      has_bearer_prefix_def access_gate_def sample_options_def createAuthMiddleware_def
      res_json_def error_envelope_def)

text \<open>
  C3 (amended). With authorization enabled and a token configured, for every request outside
  the exempt classes: a missing or empty Authorization header is denied with HTTP 401 and
  JSON-RPC code -32000, message "Missing Authorization header"; a non-empty header whose value
  after the case-insensitive strip of the Bearer prefix differs from the token is denied with
  401 and -32000, message "Invalid authorization token"; a non-empty header whose stripped value
  equals the token is passed on to routing.
\<close>

theorem access_gate_credentials:
  assumes "enableAuth opts" and "apiToken opts = Some tok" and "tok \<noteq> []"
    and "\<not> exempt req"
  shows "(authorization req = None \<or> authorization req = Some [] \<longrightarrow>
            access_gate opts req =
              Respond (res_json 401 (error_envelope (- 32000) ''Missing Authorization header''))) \<and>
         (\<forall>h. authorization req = Some h \<and> h \<noteq> [] \<and> strip_bearer h \<noteq> tok \<longrightarrow>
            access_gate opts req =
              Respond (res_json 401 (error_envelope (- 32000) ''Invalid authorization token''))) \<and>
         (\<forall>h. authorization req = Some h \<and> h \<noteq> [] \<and> strip_bearer h = tok \<longrightarrow>
            access_gate opts req = Next)"
  using assms by (auto simp: gate_installed gate_checked)

theorem access_gate_credentials_witness:
  "access_gate sample_options (sample_request ''POST'' ''/mcp'' None) =
     Respond (res_json 401 (error_envelope (- 32000) ''Missing Authorization header'')) \<and>
   access_gate sample_options (sample_request ''POST'' ''/mcp'' (Some ''Bearer wrong'')) =
     Respond (res_json 401 (error_envelope (- 32000) ''Invalid authorization token'')) \<and>
   access_gate sample_options (sample_request ''POST'' ''/mcp'' (Some ''bearer  s3cret'')) = Next"
proof -
  have opts: "enableAuth sample_options" "apiToken sample_options = Some ''s3cret''"
    "''s3cret'' \<noteq> []"
    by (simp_all add: sample_options_def)
  have ne: "\<not> exempt (sample_request ''POST'' ''/mcp'' a)" for a
    by (simp add: exempt_def sample_request_def starts_with_def)
  have s1: "strip_bearer ''Bearer wrong'' \<noteq> ''s3cret''"
    by (simp add: strip_bearer_def has_bearer_prefix_def bearer_letters_def letter_ci_def
        is_space_def)
  have s2: "strip_bearer ''bearer  s3cret'' = ''s3cret''"
    by (simp add: strip_bearer_def has_bearer_prefix_def bearer_letters_def letter_ci_def
        is_space_def)
  show ?thesis
    using access_gate_credentials [OF opts ne, of None]
      access_gate_credentials [OF opts ne, of "Some ''Bearer wrong''"]
      access_gate_credentials [OF opts ne, of "Some ''bearer  s3cret''"] s1 s2
    by (simp add: sample_request_def)
qed

text \<open>
  C4. The gate lets a request through without looking at credentials exactly when it is a
  preflight (OPTIONS) request, a request to \<open>/health\<close> or \<open>/ready\<close>, or a request to a
  discovery path (under \<open>/.well-known/\<close>, or \<open>/register\<close>): such a request passes whatever
  the configuration, and any other request is denied by the installed check when it carries no
  credentials. The route table has patterns only for the MCP endpoint, the root and the two
  probes, so a discovery path that passed the gate finds no handler.
\<close>

theorem access_gate_exempt_classes:
  "(exempt req \<longrightarrow> access_gate opts req = Next \<and> createAuthMiddleware cfg req = Next) \<and>
   (\<not> exempt req \<longrightarrow> createAuthMiddleware cfg (req\<lparr>authorization := None\<rparr>) \<noteq> Next) \<and>
   (\<forall>r \<in> set (setupRoutes opts). snd r \<in> {mcpEndpoint opts, ''/'', ''/health'', ''/ready''})"
  by (auto simp: access_gate_def gate_exempt exempt_def createAuthMiddleware_def
      setupRoutes_def Let_def)

theorem access_gate_exempt_classes_witness:
  "exempt (sample_request ''GET'' ''/.well-known/oauth-authorization-server'' None) \<and>
   access_gate sample_options
     (sample_request ''GET'' ''/.well-known/oauth-authorization-server'' None) = Next \<and>
   \<not> exempt (sample_request ''POST'' ''/mcp'' (Some ''Bearer s3cret'')) \<and>
   createAuthMiddleware \<lparr>token = ''s3cret''\<rparr>
     ((sample_request ''POST'' ''/mcp'' (Some ''Bearer s3cret''))\<lparr>authorization := None\<rparr>) \<noteq> Next \<and>
   (''GET'', ''/health'') \<in> set (setupRoutes sample_options)"
  using access_gate_exempt_classes
      [of "sample_request ''GET'' ''/.well-known/oauth-authorization-server'' None"
          sample_options "\<lparr>token = ''s3cret''\<rparr>"]
    access_gate_exempt_classes
      [of "sample_request ''POST'' ''/mcp'' (Some ''Bearer s3cret'')"
          sample_options "\<lparr>token = ''s3cret''\<rparr>"]
  by (simp add: exempt_def sample_request_def starts_with_def setupRoutes_def
      sample_options_def Let_def)

text \<open>
  C10. With authorization enabled, an Authorization header that is exactly the configured
  token, with no Bearer prefix, is admitted: the strip leaves it unchanged and it equals the
  token.
\<close>

theorem bare_token_admitted:
  assumes "enableAuth opts" and "apiToken opts = Some tok" and "tok \<noteq> []"
    and "\<not> has_bearer_prefix tok" and "authorization req = Some tok"
  shows "strip_bearer tok = tok \<and> access_gate opts req = Next"
  using assms
  by (auto simp: gate_installed strip_bearer_def createAuthMiddleware_def)

theorem bare_token_admitted_witness:
  "\<not> has_bearer_prefix ''s3cret'' \<and> strip_bearer ''s3cret'' = ''s3cret'' \<and>
   access_gate sample_options (sample_request ''POST'' ''/mcp'' (Some ''s3cret'')) = Next"
proof -
  have np: "\<not> has_bearer_prefix ''s3cret''"
    by (simp add: has_bearer_prefix_def bearer_letters_def letter_ci_def)
  show ?thesis
    using np bare_token_admitted [of sample_options "''s3cret''"
        "sample_request ''POST'' ''/mcp'' (Some ''s3cret'')", OF _ _ _ np]
    by (simp add: sample_options_def sample_request_def)
qed

subsection \<open>The registry\<close>

lemma map_has_get: "map_has m k \<longleftrightarrow> map_get m k \<noteq> None"
  by (induction m) auto

lemma map_has_keys: "map_has m k \<longleftrightarrow> k \<in> set (map fst m)"
  by (induction m) auto

lemma map_has_set: "map_has (map_set m k v) k' \<longleftrightarrow> k' = k \<or> map_has m k'"
  by (induction m) (auto split: if_splits)

lemma map_has_delete: "map_has (map_delete m k) k' \<longleftrightarrow> k' \<noteq> k \<and> map_has m k'"
  by (induction m) (auto split: if_splits)

lemma distinct_map_set: "distinct (map fst m) \<Longrightarrow> distinct (map fst (map_set m k v))"
proof (induction m)
  case Nil
  show ?case by simp
next
  case (Cons e m)
  obtain k' v' where e: "e = (k', v')" by (cases e)
  from Cons.prems have fresh: "\<not> map_has m k'" and d: "distinct (map fst m)"
    by (auto simp: e map_has_keys)
  from fresh have "k' \<noteq> k \<Longrightarrow> \<not> map_has (map_set m k v) k'"
    by (simp add: map_has_set)
  with Cons.IH [OF d] Cons.prems show ?case
    by (auto simp: e map_has_keys)
qed

lemma distinct_map_delete: "distinct (map fst m) \<Longrightarrow> distinct (map fst (map_delete m k))"
proof (induction m)
  case Nil
  show ?case by simp
next
  case (Cons e m)
  obtain k' v' where e: "e = (k', v')" by (cases e)
  from Cons.prems have fresh: "\<not> map_has m k'" and d: "distinct (map fst m)"
    by (auto simp: e map_has_keys)
  from fresh have "\<not> map_has (map_delete m k) k'"
    by (simp add: map_has_delete)
  with Cons.IH [OF d] show ?case
    by (auto simp: e map_has_keys)
qed

lemma map_set_fresh: "\<not> map_has m k \<Longrightarrow> map_set m k v = m @ [(k, v)]"
  by (induction m) auto

lemma registered_count:
  "distinct (map fst m) \<Longrightarrow> card {sid. map_has m sid} = map_size m"
proof -
  assume d: "distinct (map fst m)"
  have "{sid. map_has m sid} = set (map fst m)"
    by (auto simp: map_has_keys)
  then have "card {sid. map_has m sid} = length (map fst m)"
    using d by (simp only: distinct_card)
  then show ?thesis
    by (simp add: map_size_def)
qed

subsection \<open>Callbacks keep the keys of the registry distinct\<close>

lemma keys_distinct_calls [simp]: "keys_distinct (m\<lparr>calls := c\<rparr>) = keys_distinct m"
  by (simp add: keys_distinct_def)

lemma fire_options [simp]: "options (fire t m e) = options m"
  by (cases e) (auto simp: on_session_initialized_def on_close_def)

lemma fire_created [simp]: "created (fire t m e) = created m"
  by (cases e) (auto simp: on_session_initialized_def on_close_def)

lemma fire_keys_distinct: "keys_distinct m \<Longrightarrow> keys_distinct (fire t m e)"
  by (cases e)
    (auto simp: keys_distinct_def on_session_initialized_def on_close_def distinct_map_set
      distinct_map_delete)

lemma foldl_fire_options [simp]: "options (foldl (fire t) m es) = options m"
  by (induction es arbitrary: m) auto

lemma foldl_fire_created [simp]: "created (foldl (fire t) m es) = created m"
  by (induction es arbitrary: m) auto

lemma foldl_fire_keys_distinct: "keys_distinct m \<Longrightarrow> keys_distinct (foldl (fire t) m es)"
  by (induction es arbitrary: m) (auto simp: fire_keys_distinct)

lemma fire_unwired:
  "\<not> onsessioninitialized t \<Longrightarrow> \<not> onclose t \<Longrightarrow> foldl (fire t) m es = m"
proof (induction es)
  case Nil
  show ?case by simp
next
  case (Cons e es)
  then have "fire t m e = m" by (cases e) auto
  with Cons show ?case by simp
qed

lemma forward_options [simp]: "options (fst (forward lib m t req err)) = options m"
  by (simp add: forward_def Let_def)

lemma forward_created [simp]: "created (fst (forward lib m t req err)) = created m"
  by (simp add: forward_def Let_def)

lemma forward_keys_distinct: "keys_distinct m \<Longrightarrow> keys_distinct (fst (forward lib m t req err))"
  by (simp add: forward_def Let_def foldl_fire_keys_distinct)

lemma forward_reply:
  "snd (forward lib m t req err) = Some r \<Longrightarrow>
   r = err \<or> written (handleRequest lib t req) = Some r"
  by (auto simp: forward_def Let_def split: if_splits)

lemma with_new_reply:
  "snd (with_new lib made req) = Some r \<Longrightarrow>
   r = post_internal_error \<or> (\<exists>t. written (handleRequest lib t req) = Some r)"
  by (cases made) (auto simp: with_new_def dest: forward_reply split: option.splits)

lemma handlePost_reply:
  "snd (handlePost lib m req) = Some r \<Longrightarrow>
   r = post_bad_request \<or> r = post_internal_error \<or>
   (\<exists>t. written (handleRequest lib t req) = Some r)"
  by (auto simp: handlePost_def dest: with_new_reply forward_reply
      split: dispatch.splits option.splits)

lemma handleGet_reply:
  "snd (handleGet lib m req) = Some r \<Longrightarrow>
   r = res_send 400 ''Invalid or missing session ID'' \<or>
   r = res_send 500 ''Internal server error'' \<or>
   (\<exists>t. written (handleRequest lib t req) = Some r)"
  by (auto simp: handleGet_def dest: forward_reply split: if_splits option.splits)

lemma handleDelete_reply:
  "snd (handleDelete lib m req) = Some r \<Longrightarrow>
   r = res_send 400 ''Invalid or missing session ID'' \<or>
   r = res_send 500 ''Error processing session termination'' \<or>
   (\<exists>t. written (handleRequest lib t req) = Some r)"
  by (auto simp: handleDelete_def dest: forward_reply split: if_splits option.splits)

lemma envelope_is_envelope: "is_error_envelope (Json (error_envelope c msg))"
  by (simp add: error_envelope_def)

lemma text_not_envelope: "\<not> is_error_envelope (payload (res_send n s))"
  by (simp add: res_send_def)

subsection \<open>Error replies\<close>

text \<open>
  C5, as stated, fails for the GET and DELETE handlers: a stream-open request without a
  session id is answered with HTTP 400 and a plain-text body.
\<close>

theorem get_rejection_counterexample:
  "snd (handleGet sample_sdk (new_manager sample_options) (mcp_request ''GET'' None JNull)) =
     Some (res_send 400 ''Invalid or missing session ID'') \<and>
   \<not> is_error_envelope (payload (res_send 400 ''Invalid or missing session ID''))"
  by (simp add: handleGet_def session_known_def mcp_request_def text_not_envelope)

text \<open>
  C5 (amended). Every denial by the access gate is a 401 whose body is a complete JSON-RPC
  error envelope, and so are the POST handler's own replies: the bad-session rejection (400)
  and the internal error (500), which is the reply whenever connecting a new transport fails
  or the transport throws before anything is written; any other reply to a POST is what the
  transport wrote. The GET and DELETE handlers answer a missing or unknown session with 400
  and a plain-text body, and a transport that throws before anything is written with 500 and
  a plain-text body; a plain-text body is not an envelope.
\<close>

theorem rejection_bodies:
  "(createAuthMiddleware cfg req = Respond r \<longrightarrow> status r = 401 \<and> is_error_envelope (payload r)) \<and>
   (selectPost lib m req = BadRequest \<longrightarrow>
      handlePost lib m req = (m, Some post_bad_request)) \<and>
   status post_bad_request = 400 \<and> is_error_envelope (payload post_bad_request) \<and>
   status post_internal_error = 500 \<and> is_error_envelope (payload post_internal_error) \<and>
   (snd (handlePost lib m req) = Some r \<longrightarrow>
      r = post_bad_request \<or> r = post_internal_error \<or>
      (\<exists>t. written (handleRequest lib t req) = Some r)) \<and>
   (\<not> session_known m req \<longrightarrow>
      handleGet lib m req = (m, Some (res_send 400 ''Invalid or missing session ID'')) \<and>
      handleDelete lib m req = (m, Some (res_send 400 ''Invalid or missing session ID''))) \<and>
   (snd (handleGet lib m req) = Some r \<longrightarrow>
      r = res_send 400 ''Invalid or missing session ID'' \<or>
      r = res_send 500 ''Internal server error'' \<or>
      (\<exists>t. written (handleRequest lib t req) = Some r)) \<and>
   (snd (handleDelete lib m req) = Some r \<longrightarrow>
      r = res_send 400 ''Invalid or missing session ID'' \<or>
      r = res_send 500 ''Error processing session termination'' \<or>
      (\<exists>t. written (handleRequest lib t req) = Some r)) \<and>
   (\<forall>n s. payload (res_send n s) = Text s \<and> \<not> is_error_envelope (payload (res_send n s))) \<and>
   (\<forall>t. selectPost lib m req = Reuse (Some t) \<and>
        threw (handleRequest lib t req) \<and> written (handleRequest lib t req) = None \<longrightarrow>
      snd (handlePost lib m req) = Some post_internal_error) \<and>
   (selectPost lib m req = Initialize \<longrightarrow>
      (snd (createStatefulTransport lib m) = None \<longrightarrow>
         snd (handlePost lib m req) = Some post_internal_error) \<and>
      (\<forall>t. snd (createStatefulTransport lib m) = Some t \<and>
           threw (handleRequest lib t req) \<and> written (handleRequest lib t req) = None \<longrightarrow>
         snd (handlePost lib m req) = Some post_internal_error)) \<and>
   (selectPost lib m req = Stateless \<longrightarrow>
      (snd (createStatelessTransport lib m) = None \<longrightarrow>
         snd (handlePost lib m req) = Some post_internal_error) \<and>
      (\<forall>t. snd (createStatelessTransport lib m) = Some t \<and>
           threw (handleRequest lib t req) \<and> written (handleRequest lib t req) = None \<longrightarrow>
         snd (handlePost lib m req) = Some post_internal_error)) \<and>
   (\<forall>t. session_known m req \<and>
        map_get (transports m) (the (mcp_session_id req)) = Some t \<and>
        threw (handleRequest lib t req) \<and> written (handleRequest lib t req) = None \<longrightarrow>
      snd (handleGet lib m req) = Some (res_send 500 ''Internal server error'') \<and>
      snd (handleDelete lib m req) =
        Some (res_send 500 ''Error processing session termination'')) \<and>
   (\<forall>n s. status (res_send n s) = n)"
proof -
  have auth: "createAuthMiddleware cfg req = Respond r \<longrightarrow>
      status r = 401 \<and> is_error_envelope (payload r)"
    by (auto simp: createAuthMiddleware_def envelope_is_envelope res_json_def
        split: if_splits)
  have bad: "selectPost lib m req = BadRequest \<longrightarrow>
      handlePost lib m req = (m, Some post_bad_request)"
    by (simp add: handlePost_def)
  have shapes: "status post_bad_request = 400" "is_error_envelope (payload post_bad_request)"
    "status post_internal_error = 500" "is_error_envelope (payload post_internal_error)"
    by (simp_all add: post_bad_request_def post_internal_error_def envelope_is_envelope
        res_json_def)
  have plain: "\<not> session_known m req \<longrightarrow>
      handleGet lib m req = (m, Some (res_send 400 ''Invalid or missing session ID'')) \<and>
      handleDelete lib m req = (m, Some (res_send 400 ''Invalid or missing session ID''))"
    by (simp add: handleGet_def handleDelete_def)
  have texts: "\<forall>n s. payload (res_send n s) = Text s \<and> \<not> is_error_envelope (payload (res_send n s))"
    by (simp add: res_send_def)
  have fails: "snd (forward lib m0 t req err) = Some err"
    if "threw (handleRequest lib t req)" "written (handleRequest lib t req) = None"
    for m0 t err
    using that by (simp add: forward_def Let_def)
  have reuse: "\<forall>t. selectPost lib m req = Reuse (Some t) \<and>
      threw (handleRequest lib t req) \<and> written (handleRequest lib t req) = None \<longrightarrow>
      snd (handlePost lib m req) = Some post_internal_error"
    by (simp add: handlePost_def fails)
  have durable: "selectPost lib m req = Initialize \<longrightarrow>
      (snd (createStatefulTransport lib m) = None \<longrightarrow>
         snd (handlePost lib m req) = Some post_internal_error) \<and>
      (\<forall>t. snd (createStatefulTransport lib m) = Some t \<and>
           threw (handleRequest lib t req) \<and> written (handleRequest lib t req) = None \<longrightarrow>
         snd (handlePost lib m req) = Some post_internal_error)"
    by (cases "createStatefulTransport lib m")
      (auto simp: handlePost_def with_new_def fails)
  have ephemeral: "selectPost lib m req = Stateless \<longrightarrow>
      (snd (createStatelessTransport lib m) = None \<longrightarrow>
         snd (handlePost lib m req) = Some post_internal_error) \<and>
      (\<forall>t. snd (createStatelessTransport lib m) = Some t \<and>
           threw (handleRequest lib t req) \<and> written (handleRequest lib t req) = None \<longrightarrow>
         snd (handlePost lib m req) = Some post_internal_error)"
    by (cases "createStatelessTransport lib m")
      (auto simp: handlePost_def with_new_def fails)
  have stream: "\<forall>t. session_known m req \<and>
      map_get (transports m) (the (mcp_session_id req)) = Some t \<and>
      threw (handleRequest lib t req) \<and> written (handleRequest lib t req) = None \<longrightarrow>
      snd (handleGet lib m req) = Some (res_send 500 ''Internal server error'') \<and>
      snd (handleDelete lib m req) =
        Some (res_send 500 ''Error processing session termination'')"
    by (simp add: handleGet_def handleDelete_def fails)
  have codes: "\<forall>n s. status (res_send n s) = n"
    by (simp add: res_send_def)
  show ?thesis
    using auth bad shapes plain texts handlePost_reply [of lib m req r]
      handleGet_reply [of lib m req r] handleDelete_reply [of lib m req r]
      reuse durable ephemeral stream codes
    by blast
qed

theorem rejection_bodies_witness:
  "handlePost sample_sdk (new_manager sample_options) (mcp_request ''POST'' None list_body) =
     (new_manager sample_options, Some post_bad_request) \<and>
   is_error_envelope (payload post_bad_request) \<and>
   handleDelete sample_sdk (new_manager sample_options) (mcp_request ''DELETE'' (Some ''6f1c'') JNull) =
     (new_manager sample_options, Some (res_send 400 ''Invalid or missing session ID'')) \<and>
   \<not> is_error_envelope (payload (res_send 400 ''Invalid or missing session ID'')) \<and>
   snd (handlePost faulty_sdk two_sessions (mcp_request ''POST'' (Some ''a2b7'') list_body)) =
     Some post_internal_error \<and>
   snd (handlePost unconnected_sdk (new_manager sample_options)
          (mcp_request ''POST'' None initialize_body)) = Some post_internal_error \<and>
   snd (handleGet faulty_sdk two_sessions (mcp_request ''GET'' (Some ''a2b7'') JNull)) =
     Some (res_send 500 ''Internal server error'') \<and>
   snd (handleDelete faulty_sdk two_sessions (mcp_request ''DELETE'' (Some ''a2b7'') JNull)) =
     Some (res_send 500 ''Error processing session termination'')"
proof -
  have sel: "selectPost sample_sdk (new_manager sample_options)
      (mcp_request ''POST'' None list_body) = BadRequest"
    by (simp add: selectPost_def new_manager_def sample_options_def mcp_request_def
        sample_sdk_def list_body_def initialize_body_def)
  have unk: "\<not> session_known (new_manager sample_options)
      (mcp_request ''DELETE'' (Some ''6f1c'') JNull)"
    by (simp add: session_known_def new_manager_def mcp_request_def)
  have thrown: "threw (handleRequest faulty_sdk t q)" "written (handleRequest faulty_sdk t q) = None"
    for t q
    by (simp_all add: faulty_sdk_def)
  have reuse: "selectPost faulty_sdk two_sessions
      (mcp_request ''POST'' (Some ''a2b7'') list_body) = Reuse (Some (stateful_transport 1))"
    by (simp add: selectPost_def two_sessions_def sample_options_def mcp_request_def)
  have init: "selectPost unconnected_sdk (new_manager sample_options)
      (mcp_request ''POST'' None initialize_body) = Initialize"
    "snd (createStatefulTransport unconnected_sdk (new_manager sample_options)) = None"
    by (simp_all add: selectPost_def new_manager_def sample_options_def mcp_request_def
        unconnected_sdk_def sample_sdk_def createStatefulTransport_def Let_def)
  have known: "session_known two_sessions (mcp_request meth (Some ''a2b7'') JNull)"
    "map_get (transports two_sessions)
       (the (mcp_session_id (mcp_request meth (Some ''a2b7'') JNull))) =
     Some (stateful_transport 1)" for meth
    by (simp_all add: session_known_def two_sessions_def mcp_request_def)
  from rejection_bodies [where lib = sample_sdk and m = "new_manager sample_options"
        and req = "mcp_request ''POST'' None list_body"
        and cfg = "\<lparr>token = []\<rparr>" and r = post_bad_request] sel
  have a: "handlePost sample_sdk (new_manager sample_options)
      (mcp_request ''POST'' None list_body) =
      (new_manager sample_options, Some post_bad_request) \<and>
      is_error_envelope (payload post_bad_request)"
    by - (elim conjE, simp)
  from rejection_bodies [where lib = sample_sdk and m = "new_manager sample_options"
        and req = "mcp_request ''DELETE'' (Some ''6f1c'') JNull"
        and cfg = "\<lparr>token = []\<rparr>" and r = post_bad_request] unk
  have b: "handleDelete sample_sdk (new_manager sample_options)
      (mcp_request ''DELETE'' (Some ''6f1c'') JNull) =
      (new_manager sample_options, Some (res_send 400 ''Invalid or missing session ID'')) \<and>
      \<not> is_error_envelope (payload (res_send 400 ''Invalid or missing session ID''))"
    by - (elim conjE, simp)
  from rejection_bodies [where lib = faulty_sdk and m = two_sessions
        and req = "mcp_request ''POST'' (Some ''a2b7'') list_body"
        and cfg = "\<lparr>token = []\<rparr>" and r = post_bad_request] reuse thrown
  have c: "snd (handlePost faulty_sdk two_sessions
      (mcp_request ''POST'' (Some ''a2b7'') list_body)) = Some post_internal_error"
    by - (elim conjE, simp)
  from rejection_bodies [where lib = unconnected_sdk and m = "new_manager sample_options"
        and req = "mcp_request ''POST'' None initialize_body"
        and cfg = "\<lparr>token = []\<rparr>" and r = post_bad_request] init
  have d: "snd (handlePost unconnected_sdk (new_manager sample_options)
      (mcp_request ''POST'' None initialize_body)) = Some post_internal_error"
    by - (elim conjE, simp)
  from rejection_bodies [where lib = faulty_sdk and m = two_sessions
        and req = "mcp_request ''GET'' (Some ''a2b7'') JNull"
        and cfg = "\<lparr>token = []\<rparr>" and r = post_bad_request] known thrown
  have e: "snd (handleGet faulty_sdk two_sessions
      (mcp_request ''GET'' (Some ''a2b7'') JNull)) =
      Some (res_send 500 ''Internal server error'')"
    by - (elim conjE, simp)
  from rejection_bodies [where lib = faulty_sdk and m = two_sessions
        and req = "mcp_request ''DELETE'' (Some ''a2b7'') JNull"
        and cfg = "\<lparr>token = []\<rparr>" and r = post_bad_request] known thrown
  have f: "snd (handleDelete faulty_sdk two_sessions
      (mcp_request ''DELETE'' (Some ''a2b7'') JNull)) =
      Some (res_send 500 ''Error processing session termination'')"
    by - (elim conjE, simp)
  from a b c d e f show ?thesis by simp
qed

subsection \<open>Invariants of a run\<close>

lemma create_transports [simp]:
  "transports (fst (createStatefulTransport lib m)) = transports m"
  "transports (fst (createStatelessTransport lib m)) = transports m"
  by (simp_all add: createStatefulTransport_def createStatelessTransport_def Let_def)

lemma create_options [simp]:
  "options (fst (createStatefulTransport lib m)) = options m"
  "options (fst (createStatelessTransport lib m)) = options m"
  by (simp_all add: createStatefulTransport_def createStatelessTransport_def Let_def)

lemma with_new_options [simp]: "options (fst (with_new lib made req)) = options (fst made)"
  by (cases made) (simp add: with_new_def split: option.splits)

lemma with_new_keys_distinct:
  "keys_distinct (fst made) \<Longrightarrow> keys_distinct (fst (with_new lib made req))"
  by (cases made) (simp add: with_new_def forward_keys_distinct split: option.splits)

lemma handlePost_options [simp]: "options (fst (handlePost lib m req)) = options m"
  by (simp add: handlePost_def split: dispatch.splits option.splits)

lemma handleGet_options [simp]: "options (fst (handleGet lib m req)) = options m"
  by (simp add: handleGet_def split: option.splits)

lemma handleDelete_options [simp]: "options (fst (handleDelete lib m req)) = options m"
  by (simp add: handleDelete_def split: option.splits)

lemma handlePost_keys_distinct: "keys_distinct m \<Longrightarrow> keys_distinct (fst (handlePost lib m req))"
  by (auto simp: handlePost_def keys_distinct_def [of "fst (createStatefulTransport lib m)"]
      keys_distinct_def [of "fst (createStatelessTransport lib m)"]
      keys_distinct_def [of m]
      intro!: with_new_keys_distinct forward_keys_distinct
      split: dispatch.splits option.splits)

lemma handleGet_keys_distinct: "keys_distinct m \<Longrightarrow> keys_distinct (fst (handleGet lib m req))"
  by (simp add: handleGet_def forward_keys_distinct split: option.splits)

lemma handleDelete_keys_distinct:
  "keys_distinct m \<Longrightarrow> keys_distinct (fst (handleDelete lib m req))"
  by (simp add: handleDelete_def forward_keys_distinct split: option.splits)

lemma step_options [simp]: "options (fst (step lib m c)) = options m"
  by (cases c) (simp_all add: get_connection_closed_def)

lemma step_keys_distinct: "keys_distinct m \<Longrightarrow> keys_distinct (fst (step lib m c))"
  by (cases c)
    (simp_all add: handlePost_keys_distinct handleGet_keys_distinct
      handleDelete_keys_distinct get_connection_closed_def)

lemma run_options [simp]: "options (run m cs) = options m"
  by (induction m cs rule: run.induct) simp_all

lemma run_keys_distinct: "keys_distinct m \<Longrightarrow> keys_distinct (run m cs)"
  by (induction m cs rule: run.induct) (simp_all add: step_keys_distinct)

lemma new_manager_keys_distinct: "keys_distinct (listen (new_manager opts))"
  by (simp add: keys_distinct_def new_manager_def listen_def)

subsection \<open>Operational endpoints\<close>

text \<open>
  C9. In any state the manager can reach, the body of the reply to \<open>GET /health\<close> is an
  object with the fields status, mode, activeSessions and timestamp, in this order; mode is
  "stateless" exactly when stateless mode is configured and "stateful" otherwise;
  activeSessions is the number of session ids registered at that moment. The reply to
  \<open>GET /ready\<close> is the object with the single field status, "ready".
\<close>

theorem health_report:
  assumes "m = run (listen (new_manager opts)) cs"
  shows "status (health m now) = 200 \<and>
         map fst (fields (payload (health m now))) =
           [''status'', ''mode'', ''activeSessions'', ''timestamp''] \<and>
         (map_of (fields (payload (health m now))) ''mode'' = Some (JString ''stateless'')
            \<longleftrightarrow> enableStatelessMode opts) \<and>
         (map_of (fields (payload (health m now))) ''mode'' = Some (JString ''stateful'')
            \<longleftrightarrow> \<not> enableStatelessMode opts) \<and>
         map_of (fields (payload (health m now))) ''activeSessions'' =
           Some (JNumber (int (card {sid. map_has (transports m) sid}))) \<and>
         map_of (fields (payload (health m now))) ''timestamp'' = Some (JString now) \<and>
         status ready = 200 \<and> payload ready = Json (JObject [(''status'', JString ''ready'')])"
proof -
  have "keys_distinct m"
    using assms by (simp add: run_keys_distinct new_manager_keys_distinct)
  then have count: "card {sid. map_has (transports m) sid} = map_size (transports m)"
    by (simp add: keys_distinct_def registered_count)
  have opts: "options m = opts"
    using assms by (simp add: new_manager_def listen_def)
  show ?thesis
    by (simp add: health_def ready_def res_json_def count opts)
qed

theorem health_report_witness:
  "map_of (fields (payload (health
      (run (listen (new_manager sample_options))
         [(sample_sdk, Post (mcp_request ''POST'' None initialize_body))])
      ''2026-01-01T00:00:00.000Z''))) ''activeSessions'' = Some (JNumber 1) \<and>
   map_of (fields (payload (health
      (run (listen (new_manager sample_options))
         [(sample_sdk, Post (mcp_request ''POST'' None initialize_body))])
      ''2026-01-01T00:00:00.000Z''))) ''mode'' = Some (JString ''stateful'')"
proof -
  have r: "transports (run (listen (new_manager sample_options))
         [(sample_sdk, Post (mcp_request ''POST'' None initialize_body))]) =
      [(''6f1c'', stateful_transport 0)]"
    by (simp add: handlePost_def selectPost_def new_manager_def listen_def sample_options_def
        mcp_request_def sample_sdk_def with_new_def createStatefulTransport_def forward_def
        on_session_initialized_def uuid_of_def stateful_transport_def Let_def)
  have c: "card {sid. map_has [(''6f1c'', stateful_transport 0)] sid} = 1"
    by (simp add: registered_count map_size_def)
  show ?thesis
    using health_report [OF refl, of sample_options
        "[(sample_sdk, Post (mcp_request ''POST'' None initialize_body))]"
        "''2026-01-01T00:00:00.000Z''"] r c
    by (simp add: sample_options_def)
qed

subsection \<open>Stateless mode\<close>

lemma run_stateless_empty:
  "enableStatelessMode (options m) \<Longrightarrow> transports m = [] \<Longrightarrow> transports (run m cs) = []"
proof (induction m cs rule: run.induct)
  case (1 m)
  then show ?case by simp
next
  case (2 m lib c cs)
  have "transports (fst (step lib m c)) = []"
  proof (cases c)
    case (Post req)
    with 2 show ?thesis
      by (simp add: handlePost_def selectPost_def with_new_def createStatelessTransport_def
          forward_def fire_unwired Let_def)
  next
    case (Get req)
    with 2 show ?thesis by (simp add: handleGet_def session_known_def)
  next
    case (Delete req)
    with 2 show ?thesis by (simp add: handleDelete_def session_known_def)
  next
    case (ConnectionClosed sid)
    with 2 show ?thesis by (simp add: get_connection_closed_def)
  qed
  with 2 show ?case by simp
qed

subsection \<open>Shutdown\<close>

lemma attempted_append: "attempted (xs @ ys) = attempted xs @ attempted ys"
  by (induction xs rule: attempted.induct) simp_all

lemma attempted_closing_steps: "attempted (closing_steps lib ps) = ps"
  by (induction ps) (simp_all add: closing_steps_def)

lemma closing_steps_Cons:
  "closing_steps lib ((k, t) # ps) =
     ClosingTransport k t #
     (if settled (close_transport lib t) = Rejected then [ErrorClosing k] else []) @
     closing_steps lib ps"
  by (simp add: closing_steps_def)

lemma close_hook_own_key:
  assumes "seen \<in> {None, Some None, Some (Some k)}"
  shows "httpServer (case seen of None \<Rightarrow> m | Some s \<Rightarrow> fire t m (Closed s)) = httpServer m"
    and "k' \<noteq> k \<Longrightarrow> map_has (transports m) k' \<Longrightarrow>
         map_has (transports (case seen of None \<Rightarrow> m | Some s \<Rightarrow> fire t m (Closed s))) k'"
  using assms by (auto simp: on_close_def map_has_delete split: if_splits)

lemma closeAll_visits_all:
  assumes "\<forall>e\<in>set ps. settled (close_transport lib (snd e)) \<noteq> Pending"
    and "\<forall>e\<in>set ps. onclose_seen (close_transport lib (snd e)) \<in>
           {None, Some None, Some (Some (fst e))}"
    and "distinct (map fst ps)"
    and "\<forall>e\<in>set ps. map_has (transports m) (fst e)"
  shows "snd (closeAll lib ps m) = (closing_steps lib ps, True) \<and>
         httpServer (fst (closeAll lib ps m)) = httpServer m \<and>
         calls (fst (closeAll lib ps m)) = calls m @ map (\<lambda>e. Close (snd e)) ps"
  using assms
proof (induction ps arbitrary: m)
  case Nil
  show ?case by (simp add: closing_steps_def)
next
  case (Cons e ps)
  obtain k t where e: "e = (k, t)" by (cases e)
  define out where "out = close_transport lib t"
  define m1 where "m1 = m\<lparr>calls := calls m @ [Close t]\<rparr>"
  define m' where
    "m' = (case onclose_seen out of None \<Rightarrow> m1 | Some s \<Rightarrow> fire t m1 (Closed s))"
  have seen: "onclose_seen out \<in> {None, Some None, Some (Some k)}"
    using Cons.prems(2) by (simp add: e out_def)
  have http: "httpServer m' = httpServer m"
    using close_hook_own_key(1) [OF seen, of m1 t] by (simp add: m'_def m1_def)
  have keep: "map_has (transports m') (fst x)" if "x \<in> set ps" for x
  proof -
    from that Cons.prems(3) have "fst x \<noteq> k" by (auto simp: e)
    moreover from that Cons.prems(4) have "map_has (transports m1) (fst x)"
      by (simp add: m1_def)
    ultimately show ?thesis
      unfolding m'_def by (rule close_hook_own_key(2) [OF seen])
  qed
  then have same: "filter (\<lambda>x. map_has (transports m') (fst x)) ps = ps"
    by (simp add: filter_id_conv)
  have called: "calls m' = calls m @ [Close t]"
    by (cases "onclose_seen out")
      (auto simp: m'_def m1_def on_close_def)
  have ih: "snd (closeAll lib ps m') = (closing_steps lib ps, True) \<and>
      httpServer (fst (closeAll lib ps m')) = httpServer m' \<and>
      calls (fst (closeAll lib ps m')) = calls m' @ map (\<lambda>e. Close (snd e)) ps"
    using Cons.prems keep by (intro Cons.IH) auto
  have settled: "settled out \<noteq> Pending"
    using Cons.prems(1) by (simp add: e out_def)
  obtain m'' where rest: "closeAll lib ps m' = (m'', closing_steps lib ps, True)"
    using ih by (cases "closeAll lib ps m'") auto
  have "closeAll lib (e # ps) m =
      (m'', ClosingTransport k t #
            (if settled out = Rejected then [ErrorClosing k] else []) @
            closing_steps lib ps, True)"
    using settled same rest
    by (cases "settled out") (simp_all add: e Let_def flip: out_def m1_def m'_def)
  with ih rest http called show ?case
    by (simp add: e closing_steps_Cons out_def)
qed

text \<open>
  C8, as stated, promises that the process exits once a bounded grace period has elapsed. The
  shutdown handler has no timer: the exit is in the callback of \<open>httpServer.close\<close>, which
  runs only when every open connection has ended. With a client that keeps a connection open,
  all transports are closed and the registry is cleared, and the process does not exit.
\<close>

theorem shutdown_without_exit_counterexample:
  "transports (final (shutdown busy_sdk two_sessions)) = [] \<and>
   steps (shutdown busy_sdk two_sessions) =
     [ClosingTransport ''6f1c'' (stateful_transport 0), ErrorClosing ''6f1c'',
      ClosingTransport ''a2b7'' (stateful_transport 1),
      RegistryCleared, ListenerCloseRequested] \<and>
   \<not> exited (shutdown busy_sdk two_sessions)"
  by (simp add: shutdown_def two_sessions_def busy_sdk_def sample_sdk_def
      stateful_transport_def uuid_of_def on_close_def Let_def)

subsection \<open>Members of the registry\<close>

lemma set_map_set: "set (map_set m k v) \<subseteq> insert (k, v) (set m)"
  by (induction m) (auto split: if_splits)

lemma set_map_delete: "set (map_delete m k) \<subseteq> set m"
  by (induction m) (auto split: if_splits)

lemma map_get_member: "map_get m k = Some t \<Longrightarrow> (k, t) \<in> set m"
  by (induction m) (auto split: if_splits)

subsection \<open>Sessions\<close>

lemma known_iff:
  "session_known m req \<longleftrightarrow>
   (\<exists>sid. mcp_session_id req = Some sid \<and> sid \<noteq> [] \<and> map_has (transports m) sid)"
  by (cases "mcp_session_id req") (auto simp: session_known_def)

lemma unknown_rejected:
  assumes "mcp_session_id req = Some sid" and "\<not> map_has (transports m) sid"
  shows "handleGet lib m req = (m, Some (res_send 400 ''Invalid or missing session ID''))"
    and "handleDelete lib m req = (m, Some (res_send 400 ''Invalid or missing session ID''))"
    and "\<not> enableStatelessMode (options m) \<Longrightarrow> sid \<noteq> [] \<Longrightarrow>
         handlePost lib m req = (m, Some post_bad_request)"
  using assms
  by (auto simp: handleGet_def handleDelete_def handlePost_def selectPost_def known_iff
      Let_def)

lemma absent_rejected:
  assumes "mcp_session_id req = None"
  shows "handleGet lib m req = (m, Some (res_send 400 ''Invalid or missing session ID''))"
    and "handleDelete lib m req = (m, Some (res_send 400 ''Invalid or missing session ID''))"
  using assms by (auto simp: handleGet_def handleDelete_def known_iff)

lemma known_forwarded:
  assumes "mcp_session_id req = Some sid" and "sid \<noteq> []"
    and "map_get (transports m) sid = Some t"
  shows "handleGet lib m req = forward lib m t req (res_send 500 ''Internal server error'')"
    and "handleDelete lib m req =
           forward lib m t req (res_send 500 ''Error processing session termination'')"
    and "\<not> enableStatelessMode (options m) \<Longrightarrow> selectPost lib m req = Reuse (Some t)"
    and "\<not> enableStatelessMode (options m) \<Longrightarrow>
         handlePost lib m req = forward lib m t req post_internal_error"
  using assms
  by (auto simp: handleGet_def handleDelete_def handlePost_def selectPost_def known_iff
      map_has_get Let_def)

text \<open>
  C7. A GET whose session id header is absent or names no registered session is rejected
  (HTTP 400) and changes nothing; a GET for a registered session is handed to its transport.
  When the connection of a stream closes, the listener the handler installed leaves the
  manager as it was: the entry stays in the registry, and a later GET or POST with this id
  goes to the same transport.
\<close>

theorem get_stream:
  "(mcp_session_id req = None \<or>
    (\<exists>sid. mcp_session_id req = Some sid \<and> \<not> map_has (transports m) sid) \<longrightarrow>
      handleGet lib m req = (m, Some (res_send 400 ''Invalid or missing session ID''))) \<and>
   (\<forall>sid t. mcp_session_id req = Some sid \<and> sid \<noteq> [] \<and>
            map_get (transports m) sid = Some t \<longrightarrow>
      handleGet lib m req = forward lib m t req (res_send 500 ''Internal server error'')) \<and>
   fst (get_connection_closed m sid') = m \<and>
   run m ((lib', ConnectionClosed sid') # cs) = run m cs \<and>
   (\<forall>t. sid' \<noteq> [] \<and> map_get (transports m) sid' = Some t \<and>
        mcp_session_id req' = Some sid' \<longrightarrow>
      map_get (transports (fst (get_connection_closed m sid'))) sid' = Some t \<and>
      handleGet lib' (fst (get_connection_closed m sid')) req' =
        forward lib' m t req' (res_send 500 ''Internal server error'') \<and>
      (\<not> enableStatelessMode (options m) \<longrightarrow>
         handlePost lib' (fst (get_connection_closed m sid')) req' =
           forward lib' m t req' post_internal_error))"
proof -
  have same: "fst (get_connection_closed m sid') = m"
    by (simp add: get_connection_closed_def)
  have rejected: "mcp_session_id req = None \<or>
      (\<exists>sid. mcp_session_id req = Some sid \<and> \<not> map_has (transports m) sid) \<longrightarrow>
      handleGet lib m req = (m, Some (res_send 400 ''Invalid or missing session ID''))"
    by (auto simp: absent_rejected unknown_rejected)
  have opened: "\<forall>sid t. mcp_session_id req = Some sid \<and> sid \<noteq> [] \<and>
      map_get (transports m) sid = Some t \<longrightarrow>
      handleGet lib m req = forward lib m t req (res_send 500 ''Internal server error'')"
    by (auto simp: known_forwarded)
  have reusable: "\<forall>t. sid' \<noteq> [] \<and> map_get (transports m) sid' = Some t \<and>
      mcp_session_id req' = Some sid' \<longrightarrow>
      map_get (transports (fst (get_connection_closed m sid'))) sid' = Some t \<and>
      handleGet lib' (fst (get_connection_closed m sid')) req' =
        forward lib' m t req' (res_send 500 ''Internal server error'') \<and>
      (\<not> enableStatelessMode (options m) \<longrightarrow>
         handlePost lib' (fst (get_connection_closed m sid')) req' =
           forward lib' m t req' post_internal_error)"
    by (auto simp: same known_forwarded)
  from same rejected opened reusable show ?thesis
    by simp
qed

theorem get_stream_witness:
  "handleGet sample_sdk two_sessions (mcp_request ''GET'' (Some ''0000'') JNull) =
     (two_sessions, Some (res_send 400 ''Invalid or missing session ID'')) \<and>
   map_get (transports (fst (get_connection_closed two_sessions ''a2b7''))) ''a2b7'' =
     Some (stateful_transport 1) \<and>
   handlePost sample_sdk (fst (get_connection_closed two_sessions ''a2b7''))
       (mcp_request ''POST'' (Some ''a2b7'') list_body) =
     (two_sessions\<lparr>calls := [HandleRequest (stateful_transport 1)
                                  (mcp_request ''POST'' (Some ''a2b7'') list_body)]\<rparr>,
      Some (ok_reply None))"
proof -
  have unk: "mcp_session_id (mcp_request ''GET'' (Some ''0000'') JNull) = Some ''0000''"
    "\<not> map_has (transports two_sessions) ''0000''"
    by (simp_all add: mcp_request_def two_sessions_def)
  have reg: "''a2b7'' \<noteq> []"
    "map_get (transports two_sessions) ''a2b7'' = Some (stateful_transport 1)"
    "mcp_session_id (mcp_request ''POST'' (Some ''a2b7'') list_body) = Some ''a2b7''"
    "\<not> enableStatelessMode (options two_sessions)"
    by (simp_all add: two_sessions_def mcp_request_def sample_options_def)
  have fw: "forward sample_sdk two_sessions (stateful_transport 1)
      (mcp_request ''POST'' (Some ''a2b7'') list_body) post_internal_error =
      (two_sessions\<lparr>calls := [HandleRequest (stateful_transport 1)
                                   (mcp_request ''POST'' (Some ''a2b7'') list_body)]\<rparr>,
       Some (ok_reply None))"
    by (simp add: forward_def sample_sdk_def mcp_request_def list_body_def
        initialize_body_def two_sessions_def Let_def)
  from get_stream [of "mcp_request ''GET'' (Some ''0000'') JNull" two_sessions sample_sdk
      "''a2b7''" sample_sdk "[]" "mcp_request ''POST'' (Some ''a2b7'') list_body"] unk reg fw
  show ?thesis by auto
qed

text \<open>
  C1, as stated, fails on a POST whose session id header is sent with an empty value and
  whose body is an initialization request: the header is present and names no registered
  session, yet the request is not rejected, and a session is created, because
  \<open>!sessionId\<close> holds for the empty string.
\<close>

theorem empty_session_header_counterexample:
  "\<not> enableStatelessMode (options (new_manager sample_options)) \<and>
   mcp_session_id (mcp_request ''POST'' (Some []) initialize_body) = Some [] \<and>
   \<not> map_has (transports (new_manager sample_options)) [] \<and>
   isInitializeRequest sample_sdk (body (mcp_request ''POST'' (Some []) initialize_body)) \<and>
   snd (handlePost sample_sdk (new_manager sample_options)
          (mcp_request ''POST'' (Some []) initialize_body)) \<noteq> Some post_bad_request \<and>
   transports (fst (handlePost sample_sdk (new_manager sample_options)
          (mcp_request ''POST'' (Some []) initialize_body))) =
     [(''6f1c'', stateful_transport 0)]"
  by (simp add: handlePost_def selectPost_def new_manager_def sample_options_def
      mcp_request_def sample_sdk_def with_new_def createStatefulTransport_def forward_def
      on_session_initialized_def uuid_of_def stateful_transport_def Let_def ok_reply_def
      post_bad_request_def res_json_def)

subsection \<open>The described library\<close>

lemma generated_id_inj [simp]: "generated_id a = generated_id b \<longleftrightarrow> a = b"
proof
  assume "generated_id a = generated_id b"
  then have "length (generated_id a) = length (generated_id b)" by simp
  then show "a = b" by (simp add: generated_id_def)
qed simp

lemma generated_id_nonempty [simp]: "generated_id n \<noteq> []"
  by (simp add: generated_id_def)

lemma the_sdk_simps [simp]:
  "isInitializeRequest (the_sdk L) = recognises L"
  "connect_ok (the_sdk L) t"
  "listener_drains (the_sdk L) = drains L"
  "onclose_seen (close_transport (the_sdk L) t) = Some (session_of t)"
  "settled (close_transport (the_sdk L) t) = (if close_fails L t then Rejected else Resolved)"
  by (simp_all add: the_sdk_def)

lemma the_sdk_events:
  "events (handleRequest (the_sdk L) t req) =
     (if http_method req = ''DELETE'' then [Closed (session_of t)]
      else if http_method req = ''POST'' \<and> recognises L (body req) \<and>
              \<not> truthy (mcp_session_id req)
      then (case session_of t of None \<Rightarrow> [] | Some sid \<Rightarrow> [SessionInitialized sid])
      else [])"
  by (simp add: the_sdk_def)

lemma the_sdk_session_event:
  "SessionInitialized sid \<in> set (events (handleRequest (the_sdk L) t req)) \<Longrightarrow>
   session_of t = Some sid"
  apply (subst (asm) the_sdk_events)
  apply (cases "http_method req = ''DELETE''")
   apply simp
  apply (cases "http_method req = ''POST'' \<and> recognises L (body req) \<and>
                \<not> truthy (mcp_session_id req)")
   apply (cases "session_of t")
    apply simp
   apply simp
  apply simp
  done

lemma session_of_stateful:
  "sessionIdGenerator t = Some RandomUUID \<Longrightarrow> session_of t = Some (generated_id (ident t))"
  by (simp add: session_of_def)

lemma session_of_cases:
  "session_of t = None \<or> session_of t = Some (generated_id (ident t))"
  by (simp add: session_of_def split: option.splits id_generator.splits)

subsection \<open>Registered under the generated id\<close>

lemma registered_by_id_calls [simp]:
  "registered_by_id (m\<lparr>calls := c\<rparr>) = registered_by_id m"
  by (simp add: registered_by_id_def)

lemma registered_entry:
  assumes "registered_by_id m" and "map_get (transports m) sid = Some t"
  shows "sid = generated_id (ident t)" and "ident t < created m"
    and "sessionIdGenerator t = Some RandomUUID" and "onclose t" and "sid \<noteq> []"
    and "session_of t = Some sid"
proof -
  from assms(2) have "(sid, t) \<in> set (transports m)" by (rule map_get_member)
  with assms(1) have e: "sid = generated_id (ident t) \<and> ident t < created m \<and>
      sessionIdGenerator t = Some RandomUUID \<and> onclose t"
    unfolding registered_by_id_def list_all_iff by fastforce
  then show "sid = generated_id (ident t)" and "ident t < created m"
    and "sessionIdGenerator t = Some RandomUUID" and "onclose t" and "sid \<noteq> []"
    and "session_of t = Some sid"
    by (simp_all add: session_of_stateful)
qed

lemma generated_id_fresh:
  assumes "registered_by_id m"
  shows "\<not> map_has (transports m) (generated_id (created m))"
proof
  assume "map_has (transports m) (generated_id (created m))"
  then obtain t where "map_get (transports m) (generated_id (created m)) = Some t"
    by (auto simp: map_has_get)
  from registered_entry(1,2) [OF assms this] show False by simp
qed

lemma fire_registered_by_id:
  assumes "registered_by_id m"
    and "onsessioninitialized t \<longrightarrow>
           ident t < created m \<and> sessionIdGenerator t = Some RandomUUID \<and> onclose t"
    and "e \<in> set (events (handleRequest (the_sdk L) t req))"
  shows "registered_by_id (fire t m e)"
proof (cases e)
  case (SessionInitialized sid)
  with assms(3) have "SessionInitialized sid \<in> set (events (handleRequest (the_sdk L) t req))"
    by simp
  then have "session_of t = Some sid"
    by (rule the_sdk_session_event)
  with session_of_cases [of t] have sid: "sid = generated_id (ident t)"
    by simp
  from assms(1,2) set_map_set [of "transports m" sid t] show ?thesis
    by (auto simp: SessionInitialized sid registered_by_id_def list_all_iff
        on_session_initialized_def)
next
  case (Closed s)
  from assms(1) set_map_delete [of "transports m" "the s"] show ?thesis
    by (auto simp: Closed registered_by_id_def list_all_iff on_close_def)
qed

lemma forward_registered_by_id:
  assumes "registered_by_id m"
    and "onsessioninitialized t \<longrightarrow>
           ident t < created m \<and> sessionIdGenerator t = Some RandomUUID \<and> onclose t"
  shows "registered_by_id (fst (forward (the_sdk L) m t req err))"
proof -
  have "registered_by_id (foldl (fire t) m' es)"
    if "registered_by_id m'" and "created m' = created m"
      and "set es \<subseteq> set (events (handleRequest (the_sdk L) t req))" for m' es
    using that
  proof (induction es arbitrary: m')
    case Nil
    then show ?case by simp
  next
    case (Cons e es)
    from Cons.prems assms(2) have "registered_by_id (fire t m' e)"
      by (intro fire_registered_by_id [where L = L and req = req]) auto
    moreover have "created (fire t m' e) = created m" using Cons.prems by simp
    ultimately show ?case using Cons.IH Cons.prems by simp
  qed
  from this [of "m\<lparr>calls := calls m @ [HandleRequest t req]\<rparr>"
      "events (handleRequest (the_sdk L) t req)"] assms(1)
  show ?thesis by (simp add: forward_def Let_def)
qed

lemma registered_by_id_created:
  "registered_by_id m \<Longrightarrow> registered_by_id (m\<lparr>created := Suc (created m)\<rparr>)"
  by (auto simp: registered_by_id_def list_all_iff)

lemma handlePost_registered_by_id:
  assumes "registered_by_id m"
  shows "registered_by_id (fst (handlePost (the_sdk L) m req))"
proof (cases "selectPost (the_sdk L) m req")
  case Stateless
  have "registered_by_id (m\<lparr>created := Suc (created m), calls := c\<rparr>)" for c
    using registered_by_id_created [OF assms] by (simp add: registered_by_id_def)
  then show ?thesis
    by (simp add: handlePost_def Stateless with_new_def createStatelessTransport_def Let_def
        forward_registered_by_id)
next
  case (Reuse x)
  show ?thesis
  proof (cases x)
    case None
    with assms Reuse show ?thesis by (simp add: handlePost_def)
  next
    case (Some t)
    with Reuse have "map_get (transports m) (the (mcp_session_id req)) = Some t"
      by (auto simp: selectPost_def Let_def split: if_splits)
    from registered_entry(2,3,4) [OF assms this] assms Reuse Some show ?thesis
      by (simp add: handlePost_def forward_registered_by_id)
  qed
next
  case Initialize
  have "registered_by_id (m\<lparr>created := Suc (created m), calls := c\<rparr>)" for c
    using registered_by_id_created [OF assms] by (simp add: registered_by_id_def)
  then show ?thesis
    by (simp add: handlePost_def Initialize with_new_def createStatefulTransport_def Let_def
        forward_registered_by_id)
next
  case BadRequest
  with assms show ?thesis by (simp add: handlePost_def)
qed

lemma handleGet_registered_by_id:
  assumes "registered_by_id m"
  shows "registered_by_id (fst (handleGet (the_sdk L) m req))"
proof (cases "map_get (transports m) (the (mcp_session_id req))")
  case None
  with assms show ?thesis by (simp add: handleGet_def)
next
  case (Some t)
  from registered_entry(2,3,4) [OF assms Some] assms Some show ?thesis
    by (simp add: handleGet_def forward_registered_by_id)
qed

lemma handleDelete_registered_by_id:
  assumes "registered_by_id m"
  shows "registered_by_id (fst (handleDelete (the_sdk L) m req))"
proof (cases "map_get (transports m) (the (mcp_session_id req))")
  case None
  with assms show ?thesis by (simp add: handleDelete_def)
next
  case (Some t)
  from registered_entry(2,3,4) [OF assms Some] assms Some show ?thesis
    by (simp add: handleDelete_def forward_registered_by_id)
qed

lemma step_registered_by_id:
  "registered_by_id m \<Longrightarrow> registered_by_id (fst (step (the_sdk L) m c))"
  by (cases c)
    (simp_all add: handlePost_registered_by_id handleGet_registered_by_id
      handleDelete_registered_by_id get_connection_closed_def)

lemma run_registered_by_id:
  "registered_by_id m \<Longrightarrow> registered_by_id (run m (with_library cs))"
proof (induction cs arbitrary: m)
  case Nil
  then show ?case by (simp add: with_library_def)
next
  case (Cons x cs)
  from Cons.prems have "registered_by_id (fst (step (the_sdk (fst x)) m (snd x)))"
    by (rule step_registered_by_id)
  from Cons.IH [OF this] show ?case by (simp add: with_library_def)
qed

lemma new_manager_registered_by_id: "registered_by_id (listen (new_manager opts))"
  by (simp add: registered_by_id_def new_manager_def listen_def)

lemma step_httpServer [simp]: "httpServer (fst (step lib m c)) = httpServer m"
proof -
  have f: "httpServer (foldl (fire t) m' es) = httpServer m'" for t m' es
  proof (induction es arbitrary: m')
    case Nil
    show ?case by simp
  next
    case (Cons e es)
    have "httpServer (fire t m' e) = httpServer m'"
      by (cases e) (auto simp: on_session_initialized_def on_close_def)
    with Cons show ?case by simp
  qed
  have fw: "httpServer (fst (forward lib m' t req err)) = httpServer m'" for m' t req err
    by (simp add: forward_def Let_def f)
  show ?thesis
    by (cases c)
      (auto simp: handlePost_def handleGet_def handleDelete_def with_new_def fw
        createStatefulTransport_def createStatelessTransport_def Let_def
        get_connection_closed_def split: dispatch.splits option.splits)
qed

lemma run_httpServer [simp]: "httpServer (run m cs) = httpServer m"
  by (induction m cs rule: run.induct) simp_all

subsection \<open>What a handler does with a transport\<close>

lemma fire_calls [simp]: "calls (fire t m e) = calls m"
  by (cases e) (auto simp: on_session_initialized_def on_close_def)

lemma foldl_fire_calls [simp]: "calls (foldl (fire t) m es) = calls m"
  by (induction es arbitrary: m) auto

lemma forward_calls: "calls (fst (forward lib m t req err)) = calls m @ [HandleRequest t req]"
  by (simp add: forward_def Let_def)

lemma forward_reply_eq:
  "snd (forward lib m t req err) =
     (if threw (handleRequest lib t req) \<and> written (handleRequest lib t req) = None
      then Some err else written (handleRequest lib t req))"
  by (simp add: forward_def Let_def)

lemma forward_transports:
  "transports (fst (forward lib m t req err)) =
     transports (foldl (fire t) m (events (handleRequest lib t req)))"
proof -
  have "transports (foldl (fire t) (m\<lparr>calls := c\<rparr>) es) = transports (foldl (fire t) m es)"
    for c es
  proof (induction es arbitrary: m)
    case Nil
    show ?case by simp
  next
    case (Cons e es)
    have "fire t (m\<lparr>calls := c\<rparr>) e = (fire t m e)\<lparr>calls := c\<rparr>"
      by (cases e) (auto simp: on_session_initialized_def on_close_def)
    with Cons show ?case by simp
  qed
  then show ?thesis by (simp add: forward_def Let_def)
qed

lemma reachable_registered:
  "registered_by_id (run (listen (new_manager opts)) (with_library cs))"
  by (simp add: run_registered_by_id new_manager_registered_by_id)

lemma listening_options [simp]: "options (listen (new_manager opts)) = opts"
  by (simp add: new_manager_def listen_def)





lemma map_get_set_same: "map_get (map_set m k v) k = Some v"
  by (induction m) auto

lemma stateful_created:
  "createStatefulTransport (the_sdk L) m =
     (m\<lparr>created := created m + 1,
        calls := calls m @
          [Connect \<lparr>ident = created m, sessionIdGenerator = Some RandomUUID,
                    enableJsonResponse = True,
                    eventStore = (if enableResumability (options m)
                                  then Some InMemoryEventStore else None),
                    onsessioninitialized = True, onclose = True\<rparr>]\<rparr>,
      Some \<lparr>ident = created m, sessionIdGenerator = Some RandomUUID,
            enableJsonResponse = True,
            eventStore = (if enableResumability (options m)
                          then Some InMemoryEventStore else None),
            onsessioninitialized = True, onclose = True\<rparr>)"
  by (simp add: createStatefulTransport_def Let_def)

text \<open>
  C1 (amended). In stateful mode a POST is dispatched as follows. A session id header with a
  non-empty value that is registered: the transport registered under it handles the request,
  and the caller gets what that transport wrote. A session id header that is absent or empty,
  with an initialization body: a new durable transport is created and handles the request, it
  is registered under a fresh id, one that was not in the registry, and the reply returns
  this id to the caller in its session header. Every other combination (a non-empty session
  id that is not registered, with any body; or no session id or an empty one and a body that
  is not an initialization) is rejected with HTTP 400 and a JSON-RPC error, and the manager
  is unchanged: no session is created or mutated.
\<close>

theorem post_dispatch:
  "(\<not> enableStatelessMode (options m') \<longrightarrow>
      (\<forall>sid t. mcp_session_id req = Some sid \<and> sid \<noteq> [] \<and>
               map_get (transports m') sid = Some t \<longrightarrow>
         selectPost lib m' req = Reuse (Some t) \<and>
         handlePost lib m' req = forward lib m' t req post_internal_error \<and>
         calls (fst (handlePost lib m' req)) = calls m' @ [HandleRequest t req] \<and>
         snd (handlePost lib m' req) =
           (if threw (handleRequest lib t req) \<and> written (handleRequest lib t req) = None
            then Some post_internal_error else written (handleRequest lib t req))) \<and>
      ((truthy (mcp_session_id req) \<and>
          \<not> map_has (transports m') (the (mcp_session_id req))) \<or>
       (\<not> truthy (mcp_session_id req) \<and> \<not> isInitializeRequest lib (body req)) \<longrightarrow>
         selectPost lib m' req = BadRequest \<and>
         handlePost lib m' req = (m', Some post_bad_request))) \<and>
   (m = run (listen (new_manager opts)) (with_library cs) \<and>
    \<not> enableStatelessMode opts \<and> http_method req = ''POST'' \<and>
    \<not> truthy (mcp_session_id req) \<and> recognises L (body req) \<longrightarrow>
      selectPost (the_sdk L) m req = Initialize \<and>
      (\<exists>t. snd (createStatefulTransport (the_sdk L) m) = Some t \<and>
           ident t = created m \<and> sessionIdGenerator t = Some RandomUUID \<and>
           onsessioninitialized t \<and> onclose t \<and>
           calls (fst (handlePost (the_sdk L) m req)) =
             calls m @ [Connect t, HandleRequest t req] \<and>
           \<not> map_has (transports m) (generated_id (created m)) \<and>
           transports (fst (handlePost (the_sdk L) m req)) =
             transports m @ [(generated_id (created m), t)] \<and>
           map_get (transports (fst (handlePost (the_sdk L) m req)))
             (generated_id (created m)) = Some t \<and>
           snd (handlePost (the_sdk L) m req) =
             Some ((replies L t req)\<lparr>session_id_header := Some (generated_id (created m))\<rparr>)))"
proof -
  have reuse: "selectPost lib m' req = Reuse (Some t) \<and>
      handlePost lib m' req = forward lib m' t req post_internal_error \<and>
      calls (fst (handlePost lib m' req)) = calls m' @ [HandleRequest t req] \<and>
      snd (handlePost lib m' req) =
        (if threw (handleRequest lib t req) \<and> written (handleRequest lib t req) = None
         then Some post_internal_error else written (handleRequest lib t req))"
    if "\<not> enableStatelessMode (options m')" "mcp_session_id req = Some sid" "sid \<noteq> []"
      "map_get (transports m') sid = Some t" for sid t
    using known_forwarded(3,4) [OF that(2,3,4) that(1), of lib]
    by (simp add: forward_calls forward_reply_eq)
  have bad: "(truthy (mcp_session_id req) \<and>
        \<not> map_has (transports m') (the (mcp_session_id req))) \<or>
      (\<not> truthy (mcp_session_id req) \<and> \<not> isInitializeRequest lib (body req)) \<longrightarrow>
      selectPost lib m' req = BadRequest \<and>
      handlePost lib m' req = (m', Some post_bad_request)"
    if "\<not> enableStatelessMode (options m')"
    using that by (auto simp: handlePost_def selectPost_def Let_def)
  have fresh: "selectPost (the_sdk L) m req = Initialize \<and>
      (\<exists>t. snd (createStatefulTransport (the_sdk L) m) = Some t \<and>
           ident t = created m \<and> sessionIdGenerator t = Some RandomUUID \<and>
           onsessioninitialized t \<and> onclose t \<and>
           calls (fst (handlePost (the_sdk L) m req)) =
             calls m @ [Connect t, HandleRequest t req] \<and>
           \<not> map_has (transports m) (generated_id (created m)) \<and>
           transports (fst (handlePost (the_sdk L) m req)) =
             transports m @ [(generated_id (created m), t)] \<and>
           map_get (transports (fst (handlePost (the_sdk L) m req)))
             (generated_id (created m)) = Some t \<and>
           snd (handlePost (the_sdk L) m req) =
             Some ((replies L t req)\<lparr>session_id_header := Some (generated_id (created m))\<rparr>))"
    if reach: "m = run (listen (new_manager opts)) (with_library cs)"
      and mode: "\<not> enableStatelessMode opts" and post: "http_method req = ''POST''"
      and hdr: "\<not> truthy (mcp_session_id req)" and init: "recognises L (body req)"
  proof -
    define t where "t = \<lparr>ident = created m, sessionIdGenerator = Some RandomUUID,
        enableJsonResponse = True,
        eventStore = (if enableResumability (options m) then Some InMemoryEventStore else None),
        onsessioninitialized = True, onclose = True\<rparr>"
    define m1 where "m1 = m\<lparr>created := created m + 1, calls := calls m @ [Connect t]\<rparr>"
    have tprops: "ident t = created m" "sessionIdGenerator t = Some RandomUUID"
      "onsessioninitialized t" "onclose t"
      by (simp_all add: t_def)
    have m1: "transports m1 = transports m" "calls m1 = calls m @ [Connect t]"
      by (simp_all add: m1_def)
    have inv: "registered_by_id m"
      unfolding reach by (rule reachable_registered)
    have opts: "options m = opts" unfolding reach by simp
    have sel: "selectPost (the_sdk L) m req = Initialize"
      using mode hdr init by (simp add: selectPost_def opts)
    have made: "createStatefulTransport (the_sdk L) m = (m1, Some t)"
      by (simp add: stateful_created t_def m1_def)
    have hp: "handlePost (the_sdk L) m req =
        forward (the_sdk L) m1 t req post_internal_error"
      by (simp add: handlePost_def sel with_new_def made)
    have sess: "session_of t = Some (generated_id (created m))"
      by (simp add: session_of_def tprops)
    have out: "handleRequest (the_sdk L) t req =
        \<lparr>events = [SessionInitialized (generated_id (created m))],
         written = Some ((replies L t req)\<lparr>session_id_header := Some (generated_id (created m))\<rparr>),
         threw = False\<rparr>"
      using post hdr init by (simp add: the_sdk_def sess)
    have new: "\<not> map_has (transports m) (generated_id (created m))"
      by (rule generated_id_fresh [OF inv])
    have reg: "transports (fst (handlePost (the_sdk L) m req)) =
        transports m @ [(generated_id (created m), t)]"
      using new tprops
      by (simp add: hp forward_transports out on_session_initialized_def map_set_fresh m1)
    have got: "map_get (transports m @ [(generated_id (created m), t)])
        (generated_id (created m)) = Some t"
      using new map_get_set_same [of "transports m" "generated_id (created m)" t]
      by (simp add: map_set_fresh)
    have cl: "calls (fst (handlePost (the_sdk L) m req)) =
        calls m @ [Connect t, HandleRequest t req]"
      by (simp add: hp forward_calls m1)
    have rp: "snd (handlePost (the_sdk L) m req) =
        Some ((replies L t req)\<lparr>session_id_header := Some (generated_id (created m))\<rparr>)"
      by (simp add: hp forward_reply_eq out)
    have "snd (createStatefulTransport (the_sdk L) m) = Some t \<and>
        ident t = created m \<and> sessionIdGenerator t = Some RandomUUID \<and>
        onsessioninitialized t \<and> onclose t \<and>
        calls (fst (handlePost (the_sdk L) m req)) =
          calls m @ [Connect t, HandleRequest t req] \<and>
        \<not> map_has (transports m) (generated_id (created m)) \<and>
        transports (fst (handlePost (the_sdk L) m req)) =
          transports m @ [(generated_id (created m), t)] \<and>
        map_get (transports (fst (handlePost (the_sdk L) m req)))
          (generated_id (created m)) = Some t \<and>
        snd (handlePost (the_sdk L) m req) =
          Some ((replies L t req)\<lparr>session_id_header := Some (generated_id (created m))\<rparr>)"
      using new reg got tprops cl rp
      by (simp add: made)
    with sel show ?thesis by blast
  qed
  from reuse bad fresh show ?thesis by blast
qed


theorem post_dispatch_witness:
  "handlePost sample_sdk two_sessions (mcp_request ''POST'' (Some ''a2b7'') initialize_body) =
     forward sample_sdk two_sessions (stateful_transport 1)
       (mcp_request ''POST'' (Some ''a2b7'') initialize_body) post_internal_error \<and>
   handlePost sample_sdk two_sessions (mcp_request ''POST'' (Some ''0000'') initialize_body) =
     (two_sessions, Some post_bad_request) \<and>
   handlePost sample_sdk two_sessions (mcp_request ''POST'' None list_body) =
     (two_sessions, Some post_bad_request) \<and>
   transports (fst (handlePost (the_sdk sample_library) (listen (new_manager sample_options))
       (mcp_request ''POST'' None initialize_body))) = [(''s'', stateful_transport 0)] \<and>
   snd (handlePost (the_sdk sample_library) (listen (new_manager sample_options))
       (mcp_request ''POST'' None initialize_body)) = Some (ok_reply (Some ''s''))"
proof -
  have mode: "\<not> enableStatelessMode (options two_sessions)"
    by (simp add: two_sessions_def sample_options_def)
  have known: "mcp_session_id (mcp_request ''POST'' (Some ''a2b7'') initialize_body) =
      Some ''a2b7''" "''a2b7'' \<noteq> []"
    "map_get (transports two_sessions) ''a2b7'' = Some (stateful_transport 1)"
    by (simp_all add: mcp_request_def two_sessions_def)
  have unknown: "truthy (mcp_session_id (mcp_request ''POST'' (Some ''0000'') initialize_body))"
    "\<not> map_has (transports two_sessions)
        (the (mcp_session_id (mcp_request ''POST'' (Some ''0000'') initialize_body)))"
    by (simp_all add: mcp_request_def two_sessions_def)
  have plain: "\<not> truthy (mcp_session_id (mcp_request ''POST'' None list_body))"
    "\<not> isInitializeRequest sample_sdk (body (mcp_request ''POST'' None list_body))"
    by (simp_all add: mcp_request_def sample_sdk_def list_body_def initialize_body_def)
  from post_dispatch [where m' = two_sessions and lib = sample_sdk
      and req = "mcp_request ''POST'' (Some ''a2b7'') initialize_body"] mode known
  have a: "handlePost sample_sdk two_sessions
      (mcp_request ''POST'' (Some ''a2b7'') initialize_body) =
      forward sample_sdk two_sessions (stateful_transport 1)
        (mcp_request ''POST'' (Some ''a2b7'') initialize_body) post_internal_error"
    by blast
  from post_dispatch [where m' = two_sessions and lib = sample_sdk
      and req = "mcp_request ''POST'' (Some ''0000'') initialize_body"] mode unknown
  have c: "handlePost sample_sdk two_sessions
      (mcp_request ''POST'' (Some ''0000'') initialize_body) =
      (two_sessions, Some post_bad_request)"
    by blast
  from post_dispatch [where m' = two_sessions and lib = sample_sdk
      and req = "mcp_request ''POST'' None list_body"] mode plain
  have d: "handlePost sample_sdk two_sessions (mcp_request ''POST'' None list_body) =
      (two_sessions, Some post_bad_request)"
    by blast
  define m where "m = listen (new_manager sample_options)"
  define req where "req = mcp_request ''POST'' None initialize_body"
  have reach: "m = run (listen (new_manager sample_options)) (with_library [])"
    by (simp add: m_def with_library_def)
  have hyp: "\<not> enableStatelessMode sample_options" "http_method req = ''POST''"
    "\<not> truthy (mcp_session_id req)" "recognises sample_library (body req)"
    by (simp_all add: sample_options_def req_def mcp_request_def sample_library_def)
  have st: "created m = 0" "transports m = []"
    by (simp_all add: m_def new_manager_def listen_def)
  from post_dispatch [where m = m and opts = sample_options and cs = "[]"
      and L = sample_library and req = req] reach hyp
  obtain t where t: "snd (createStatefulTransport (the_sdk sample_library) m) = Some t"
    "transports (fst (handlePost (the_sdk sample_library) m req)) =
       transports m @ [(generated_id (created m), t)]"
    "snd (handlePost (the_sdk sample_library) m req) =
       Some ((replies sample_library t req)\<lparr>session_id_header := Some (generated_id (created m))\<rparr>)"
    by blast
  have "t = stateful_transport 0"
    using t(1) st
    by (simp add: stateful_created stateful_transport_def m_def new_manager_def listen_def
        sample_options_def)
  with t(2,3) st have e: "transports (fst (handlePost (the_sdk sample_library) m req)) =
        [(''s'', stateful_transport 0)] \<and>
      snd (handlePost (the_sdk sample_library) m req) = Some (ok_reply (Some ''s''))"
    by (simp add: generated_id_def sample_library_def ok_reply_def)
  from a c d e show ?thesis
    unfolding m_def req_def by simp
qed

subsection \<open>Shutdown with the described library\<close>

lemma registered_own_session:
  assumes "registered_by_id m" and "e \<in> set (transports m)"
  shows "session_of (snd e) = Some (fst e)"
  using assms unfolding registered_by_id_def list_all_iff
  by (auto simp: session_of_stateful)

lemma error_logged:
  "e \<in> set ps \<Longrightarrow> settled (close_transport lib (snd e)) = Rejected \<Longrightarrow>
   ErrorClosing (fst e) \<in> set (closing_steps lib ps)"
  by (induction ps) (auto simp: closing_steps_def)

lemma closeAll_httpServer: "httpServer (fst (closeAll lib ps m)) = httpServer m"
proof (induction lib ps m rule: closeAll.induct)
  case (1 lib m)
  show ?case by simp
next
  case (2 lib sessionId t pending m)
  define X where "X = (case onclose_seen (close_transport lib t) of
      None \<Rightarrow> m\<lparr>calls := calls m @ [Close t]\<rparr>
    | Some s \<Rightarrow> fire t (m\<lparr>calls := calls m @ [Close t]\<rparr>) (Closed s))"
  define P where "P = filter (\<lambda>e. map_has (transports X) (fst e)) pending"
  have h: "httpServer X = httpServer m"
    by (cases "onclose_seen (close_transport lib t)") (auto simp: X_def on_close_def)
  show ?case
  proof (cases "settled (close_transport lib t)")
    case Resolved
    from 2(1) [OF refl refl refl refl Resolved]
    have ih: "httpServer (fst (closeAll lib P X)) = httpServer X"
      by (simp add: X_def P_def)
    have "fst (closeAll lib ((sessionId, t) # pending) m) = fst (closeAll lib P X)"
      by (simp add: X_def P_def Let_def Resolved split: prod.splits)
    with ih h show ?thesis by simp
  next
    case Rejected
    from 2(2) [OF refl refl refl refl Rejected]
    have ih: "httpServer (fst (closeAll lib P X)) = httpServer X"
      by (simp add: X_def P_def)
    have "fst (closeAll lib ((sessionId, t) # pending) m) = fst (closeAll lib P X)"
      by (simp add: X_def P_def Let_def Rejected split: prod.splits)
    with ih h show ?thesis by simp
  next
    case Pending
    have "fst (closeAll lib ((sessionId, t) # pending) m) = X"
      by (simp add: X_def Let_def Pending)
    with h show ?thesis by simp
  qed
qed

lemma shutdown_exit_only_after:
  assumes "exited (shutdown lib m)"
  shows "transports (final (shutdown lib m)) = [] \<and> (httpServer m \<longrightarrow> listener_drains lib) \<and>
         RegistryCleared \<in> set (steps (shutdown lib m)) \<and>
         last (steps (shutdown lib m)) = ProcessExit 0"
proof -
  obtain n closing ended where r: "closeAll lib (transports m) m = (n, closing, ended)"
    by (cases "closeAll lib (transports m) m") auto
  from closeAll_httpServer [of lib "transports m" m] r have hn: "httpServer n = httpServer m"
    by simp
  from assms r hn show ?thesis
    by (cases ended) (auto simp: shutdown_def Let_def split: if_splits)
qed

text \<open>
  C8 (amended). On a shutdown signal the manager calls close on the transport of every
  registered session, in registry order; a close that fails is logged and does not keep the
  loop from going on to the next transport; after these close attempts the registry is
  cleared and is empty; the listener is then asked to close, and the process exits only after
  all of this, when the listener has finished closing. There is no grace period: as long as
  the listener has not finished closing, the process does not exit.
\<close>

theorem shutdown_sequence:
  "(m = run (listen (new_manager opts)) (with_library cs) \<longrightarrow>
      transports (final (shutdown (the_sdk L) m)) = [] \<and>
      attempted (steps (shutdown (the_sdk L) m)) = transports m \<and>
      calls (final (shutdown (the_sdk L) m)) =
        calls m @ map (\<lambda>e. Close (snd e)) (transports m) \<and>
      (\<forall>e\<in>set (transports m). close_fails L (snd e) \<longrightarrow>
         ErrorClosing (fst e) \<in> set (steps (shutdown (the_sdk L) m))) \<and>
      steps (shutdown (the_sdk L) m) =
        closing_steps (the_sdk L) (transports m) @
        [RegistryCleared, ListenerCloseRequested] @
        (if drains L then [ListenerClosed, ProcessExit 0] else []) \<and>
      exited (shutdown (the_sdk L) m) = drains L) \<and>
   (exited (shutdown lib m') \<longrightarrow>
      transports (final (shutdown lib m')) = [] \<and>
      (httpServer m' \<longrightarrow> listener_drains lib) \<and>
      RegistryCleared \<in> set (steps (shutdown lib m')) \<and>
      last (steps (shutdown lib m')) = ProcessExit 0) \<and>
   (httpServer m' \<and> \<not> listener_drains lib \<longrightarrow> \<not> exited (shutdown lib m'))"
proof -
  have described: "transports (final (shutdown (the_sdk L) m)) = [] \<and>
      attempted (steps (shutdown (the_sdk L) m)) = transports m \<and>
      calls (final (shutdown (the_sdk L) m)) =
        calls m @ map (\<lambda>e. Close (snd e)) (transports m) \<and>
      (\<forall>e\<in>set (transports m). close_fails L (snd e) \<longrightarrow>
         ErrorClosing (fst e) \<in> set (steps (shutdown (the_sdk L) m))) \<and>
      steps (shutdown (the_sdk L) m) =
        closing_steps (the_sdk L) (transports m) @
        [RegistryCleared, ListenerCloseRequested] @
        (if drains L then [ListenerClosed, ProcessExit 0] else []) \<and>
      exited (shutdown (the_sdk L) m) = drains L"
    if reach: "m = run (listen (new_manager opts)) (with_library cs)"
  proof -
    have inv: "registered_by_id m"
      unfolding reach by (rule reachable_registered)
    have dist: "keys_distinct m"
      unfolding reach by (simp add: run_keys_distinct new_manager_keys_distinct)
    have http: "httpServer m"
      unfolding reach by (simp add: listen_def)
    have settle: "\<forall>e\<in>set (transports m).
        settled (close_transport (the_sdk L) (snd e)) \<noteq> Pending"
      by simp
    have own: "\<forall>e\<in>set (transports m).
        onclose_seen (close_transport (the_sdk L) (snd e)) \<in>
          {None, Some None, Some (Some (fst e))}"
      using registered_own_session [OF inv] by simp
    have present: "\<forall>e\<in>set (transports m). map_has (transports m) (fst e)"
      by (auto simp: map_has_keys)
    from settle own dist present have all:
      "snd (closeAll (the_sdk L) (transports m) m) =
         (closing_steps (the_sdk L) (transports m), True) \<and>
       httpServer (fst (closeAll (the_sdk L) (transports m) m)) = httpServer m \<and>
       calls (fst (closeAll (the_sdk L) (transports m) m)) =
         calls m @ map (\<lambda>e. Close (snd e)) (transports m)"
      by (intro closeAll_visits_all) (simp_all add: keys_distinct_def)
    then obtain n where res: "closeAll (the_sdk L) (transports m) m =
        (n, closing_steps (the_sdk L) (transports m), True)"
      and hn: "httpServer n" and cn: "calls n = calls m @ map (\<lambda>e. Close (snd e)) (transports m)"
      using http by (cases "closeAll (the_sdk L) (transports m) m") auto
    have logged: "\<forall>e\<in>set (transports m). close_fails L (snd e) \<longrightarrow>
        ErrorClosing (fst e) \<in> set (closing_steps (the_sdk L) (transports m))"
      by (auto intro: error_logged)
    from logged show ?thesis
      by (simp add: shutdown_def res hn cn Let_def attempted_append attempted_closing_steps)
  qed
  have only: "exited (shutdown lib m') \<longrightarrow>
      transports (final (shutdown lib m')) = [] \<and>
      (httpServer m' \<longrightarrow> listener_drains lib) \<and>
      RegistryCleared \<in> set (steps (shutdown lib m')) \<and>
      last (steps (shutdown lib m')) = ProcessExit 0"
    using shutdown_exit_only_after [of lib m'] by blast
  from described only show ?thesis by blast
qed

lemma library_two_sessions:
  "run (listen (new_manager sample_options))
     (with_library [(sample_library, Post (mcp_request ''POST'' None initialize_body)),
                    (sample_library, Post (mcp_request ''POST'' None initialize_body))]) =
   \<lparr>options = sample_options,
    transports = [(''s'', stateful_transport 0), (''si'', stateful_transport 1)],
    created = 2, httpServer = True,
    calls = [Connect (stateful_transport 0),
             HandleRequest (stateful_transport 0) (mcp_request ''POST'' None initialize_body),
             Connect (stateful_transport 1),
             HandleRequest (stateful_transport 1)
               (mcp_request ''POST'' None initialize_body)]\<rparr>"
  by (simp add: with_library_def handlePost_def selectPost_def new_manager_def listen_def
      sample_options_def mcp_request_def the_sdk_def sample_library_def with_new_def
      createStatefulTransport_def forward_def on_session_initialized_def session_of_def
      generated_id_def stateful_transport_def Let_def)

theorem shutdown_sequence_witness:
  "transports (final (shutdown (the_sdk sample_library)
      (run (listen (new_manager sample_options))
         (with_library [(sample_library, Post (mcp_request ''POST'' None initialize_body)),
                        (sample_library, Post (mcp_request ''POST'' None initialize_body))])))) = [] \<and>
   steps (shutdown (the_sdk sample_library)
      (run (listen (new_manager sample_options))
         (with_library [(sample_library, Post (mcp_request ''POST'' None initialize_body)),
                        (sample_library, Post (mcp_request ''POST'' None initialize_body))]))) =
     [ClosingTransport ''s'' (stateful_transport 0), ErrorClosing ''s'',
      ClosingTransport ''si'' (stateful_transport 1),
      RegistryCleared, ListenerCloseRequested, ListenerClosed, ProcessExit 0] \<and>
   exited (shutdown (the_sdk sample_library)
      (run (listen (new_manager sample_options))
         (with_library [(sample_library, Post (mcp_request ''POST'' None initialize_body)),
                        (sample_library, Post (mcp_request ''POST'' None initialize_body))]))) \<and>
   \<not> exited (shutdown busy_sdk two_sessions)"
proof -
  define m where "m = run (listen (new_manager sample_options))
      (with_library [(sample_library, Post (mcp_request ''POST'' None initialize_body)),
                     (sample_library, Post (mcp_request ''POST'' None initialize_body))])"
  have busy: "httpServer two_sessions \<and> \<not> listener_drains busy_sdk"
    by (simp add: two_sessions_def busy_sdk_def)
  have cl: "closing_steps (the_sdk sample_library) (transports m) =
      [ClosingTransport ''s'' (stateful_transport 0), ErrorClosing ''s'',
       ClosingTransport ''si'' (stateful_transport 1)]"
    unfolding m_def library_two_sessions
    by (simp add: closing_steps_def sample_library_def stateful_transport_def)
  have dr: "drains sample_library" by (simp add: sample_library_def)
  from shutdown_sequence [where m = m and opts = sample_options and L = sample_library
      and cs = "[(sample_library, Post (mcp_request ''POST'' None initialize_body)),
                 (sample_library, Post (mcp_request ''POST'' None initialize_body))]"
      and m' = two_sessions and lib = busy_sdk] m_def busy
  have "transports (final (shutdown (the_sdk sample_library) m)) = [] \<and>
      steps (shutdown (the_sdk sample_library) m) =
        closing_steps (the_sdk sample_library) (transports m) @
        [RegistryCleared, ListenerCloseRequested] @
        (if drains sample_library then [ListenerClosed, ProcessExit 0] else []) \<and>
      exited (shutdown (the_sdk sample_library) m) = drains sample_library \<and>
      \<not> exited (shutdown busy_sdk two_sessions)"
    by blast
  with cl dr show ?thesis
    unfolding m_def by simp
qed

subsection \<open>Stateless mode: the transport is left open\<close>

lemma with_new_no_close:
  "Close t' \<in> set (calls (fst (with_new lib made req))) \<Longrightarrow>
   Close t' \<in> set (calls (fst made))"
  by (cases made) (auto simp: with_new_def forward_calls split: option.splits)

lemma handlers_never_close:
  "Close t' \<in> set (calls (fst (step lib m c))) \<Longrightarrow> Close t' \<in> set (calls m)"
proof (cases c)
  case (Post req)
  assume "Close t' \<in> set (calls (fst (step lib m c)))"
  then show ?thesis
    by (auto simp: Post handlePost_def forward_calls createStatefulTransport_def
        createStatelessTransport_def Let_def
        dest!: with_new_no_close split: dispatch.splits option.splits if_splits)
next
  case (Get req)
  assume "Close t' \<in> set (calls (fst (step lib m c)))"
  then show ?thesis
    by (auto simp: Get handleGet_def forward_calls split: if_splits option.splits)
next
  case (Delete req)
  assume "Close t' \<in> set (calls (fst (step lib m c)))"
  then show ?thesis
    by (auto simp: Delete handleDelete_def forward_calls split: if_splits option.splits)
next
  case (ConnectionClosed sid)
  assume "Close t' \<in> set (calls (fst (step lib m c)))"
  then show ?thesis
    by (simp add: ConnectionClosed get_connection_closed_def)
qed

lemma run_never_closes:
  "Close t' \<in> set (calls (run m cs)) \<Longrightarrow> Close t' \<in> set (calls m)"
  by (induction m cs rule: run.induct) (auto dest: handlers_never_close)

text \<open>
  C2. What the code does on two POSTs in stateless mode: each request gets a transport object
  of its own, constructed without an id generator, which is connected and handed the request,
  and the registry stays empty; but neither transport is closed afterwards. No handler calls
  \<open>close\<close> on a transport, in any run: the transport of a stateless request is left
  connected, not discarded.
\<close>

theorem stateless_transport_not_closed:
  "calls (run (listen (new_manager stateless_options))
      (with_library [(sample_library, Post (mcp_request ''POST'' None initialize_body)),
                     (sample_library, Post (mcp_request ''POST'' None list_body))])) =
     [Connect (stateless_transport 0),
      HandleRequest (stateless_transport 0) (mcp_request ''POST'' None initialize_body),
      Connect (stateless_transport 1),
      HandleRequest (stateless_transport 1) (mcp_request ''POST'' None list_body)] \<and>
   transports (run (listen (new_manager stateless_options))
      (with_library [(sample_library, Post (mcp_request ''POST'' None initialize_body)),
                     (sample_library, Post (mcp_request ''POST'' None list_body))])) = [] \<and>
   Close t \<notin> set (calls (run (listen (new_manager opts)) cs))"
proof -
  have "Close t \<notin> set (calls (listen (new_manager opts)))"
    by (simp add: new_manager_def listen_def)
  then have never: "Close t \<notin> set (calls (run (listen (new_manager opts)) cs))"
    by (auto dest: run_never_closes)
  have log: "calls (run (listen (new_manager stateless_options))
      (with_library [(sample_library, Post (mcp_request ''POST'' None initialize_body)),
                     (sample_library, Post (mcp_request ''POST'' None list_body))])) =
     [Connect (stateless_transport 0),
      HandleRequest (stateless_transport 0) (mcp_request ''POST'' None initialize_body),
      Connect (stateless_transport 1),
      HandleRequest (stateless_transport 1) (mcp_request ''POST'' None list_body)]"
    by (simp add: with_library_def handlePost_def selectPost_def new_manager_def listen_def
        stateless_options_def sample_options_def the_sdk_def sample_library_def with_new_def
        createStatelessTransport_def forward_def session_of_def stateless_transport_def
        mcp_request_def list_body_def initialize_body_def Let_def)
  have "enableStatelessMode (options (listen (new_manager stateless_options)))"
    "transports (listen (new_manager stateless_options)) = []"
    by (simp_all add: new_manager_def listen_def stateless_options_def)
  then have empty: "transports (run (listen (new_manager stateless_options)) cs') = []" for cs'
    by (rule run_stateless_empty)
  from never log empty show ?thesis by simp
qed

end
